theory Spec2Isabelle
  imports Main "HOL-Library.Product_Lexorder"
begin

section \<open>The yt-dlp HTTP service: data model\<close>

text \<open>
  The service in \<^verbatim>\<open>services/ytdlp/server.py\<close> wraps the extraction library
  \<^verbatim>\<open>yt_dlp\<close> behind two request handlers, \<^verbatim>\<open>extract_info\<close> and
  \<^verbatim>\<open>search\<close>, with a dictionary used as a time-expiring cache and two counters.

  Python dictionaries coming from the library are modelled as records with one optional
  field per key the service reads: \<open>None\<close> means that the key is absent, and a present
  value has the type the library documents for it (a string, an integer, a list). The
  numeric fields are carried as integers; the service only copies them, except for the
  width and height of a thumbnail, which it compares. A key read with a default is
  either absent or present with a value of its type: the model does not cover such a key
  present with the value \<^verbatim>\<open>None\<close>, and so says nothing about a thumbnail whose
  width is present and null, which Python cannot order against an integer.
\<close>

subsection \<open>Raw records, as the library returns them\<close>

record raw_thumbnail =
  rt_id :: "string option"
  rt_url :: "string option"
  rt_width :: "int option"
  rt_height :: "int option"
  rt_resolution :: "string option"

record raw_format =
  rf_format_id :: "string option"
  rf_url :: "string option"
  rf_ext :: "string option"
  rf_format :: "string option"
  rf_protocol :: "string option"
  rf_vcodec :: "string option"
  rf_acodec :: "string option"
  rf_width :: "int option"
  rf_height :: "int option"
  rf_fps :: "int option"
  rf_tbr :: "int option"
  rf_vbr :: "int option"
  rf_abr :: "int option"
  rf_asr :: "int option"
  rf_filesize :: "int option"
  rf_quality :: "int option"
  rf_language :: "string option"
  rf_preference :: "int option"

text \<open>
  The info dictionary of one video. \<open>ri_other_keys\<close> lists the keys of the dictionary
  that the service never reads: they matter only for the truth value of the dictionary,
  which Python takes to be false exactly when the dictionary has no key at all.
\<close>

record raw_info =
  ri_id :: "string option"
  ri_title :: "string option"
  ri_description :: "string option"
  ri_duration :: "int option"
  ri_webpage_url :: "string option"
  ri_thumbnails :: "raw_thumbnail list option"
  ri_uploader :: "string option"
  ri_upload_date :: "string option"
  ri_view_count :: "int option"
  ri_extractor :: "string option"
  ri_extractor_key :: "string option"
  ri_live_status :: "string option"
  ri_tags :: "string list option"
  ri_categories :: "string list option"
  ri_formats :: "raw_format list option"
  ri_other_keys :: "string list"

text \<open>The result of a search: a dictionary that may hold the key \<^verbatim>\<open>entries\<close>,
  a list whose items are info dictionaries or \<^verbatim>\<open>None\<close>.\<close>

record raw_search =
  rs_entries :: "raw_info option list option"

subsection \<open>Cleaned records, as the service returns them\<close>

record clean_thumbnail =
  t_id :: "string option"
  t_url :: string
  t_width :: "int option"
  t_height :: "int option"
  t_resolution :: "string option"

record clean_format =
  f_format_id :: string
  f_url :: string
  f_ext :: string
  f_format :: string
  f_protocol :: "string option"
  f_vcodec :: "string option"
  f_acodec :: "string option"
  f_width :: "int option"
  f_height :: "int option"
  f_fps :: "int option"
  f_tbr :: "int option"
  f_vbr :: "int option"
  f_abr :: "int option"
  f_asr :: "int option"
  f_filesize :: "int option"
  f_quality :: "int option"
  f_language :: "string option"
  f_preference :: "int option"

text \<open>\<open>video_info\<close> is the dictionary built for one search entry; \<open>clean_info\<close>, built
  for an extraction, has the same keys and the two lists \<^verbatim>\<open>tags\<close> and
  \<^verbatim>\<open>categories\<close> besides.\<close>

record video_info =
  v_id :: string
  v_title :: string
  v_description :: string
  v_duration :: "int option"
  v_webpage_url :: string
  v_thumbnail :: string
  v_uploader :: string
  v_upload_date :: string
  v_view_count :: "int option"
  v_extractor :: string
  v_extractor_key :: string
  v_available :: bool
  v_live_status :: "string option"
  v_formats :: "clean_format list"
  v_thumbnails :: "clean_thumbnail list"

record clean_info = video_info +
  v_tags :: "string list"
  v_categories :: "string list"

record search_results =
  videos :: "video_info list"
  total_count :: nat
  query :: string

subsection \<open>Python helpers\<close>

text \<open>\<^verbatim>\<open>d.get(key, default)\<close> on an optional field.\<close>

definition get :: "'a option \<Rightarrow> 'a \<Rightarrow> 'a" where
  "get field dflt = (case field of None \<Rightarrow> dflt | Some v \<Rightarrow> v)"

text \<open>The truth value of an optional string: \<^verbatim>\<open>None\<close> and the empty string are false.\<close>

definition str_truthy :: "string option \<Rightarrow> bool" where
  "str_truthy s = (case s of None \<Rightarrow> False | Some v \<Rightarrow> v \<noteq> [])"

text \<open>The truth value of an info dictionary: false when it has no key.\<close>

definition dict_empty :: "raw_info \<Rightarrow> bool" where
  "dict_empty d \<longleftrightarrow>
     ri_id d = None \<and> ri_title d = None \<and> ri_description d = None \<and> ri_duration d = None \<and>
     ri_webpage_url d = None \<and> ri_thumbnails d = None \<and> ri_uploader d = None \<and>
     ri_upload_date d = None \<and> ri_view_count d = None \<and> ri_extractor d = None \<and>
     ri_extractor_key d = None \<and> ri_live_status d = None \<and> ri_tags d = None \<and>
     ri_categories d = None \<and> ri_formats d = None \<and> ri_other_keys d = []"

definition info_truthy :: "raw_info option \<Rightarrow> bool" where
  "info_truthy info = (case info of None \<Rightarrow> False | Some d \<Rightarrow> \<not> dict_empty d)"

text \<open>\<^verbatim>\<open>str(n)\<close> for an integer: decimal digits, with a minus sign when negative.\<close>

definition digit_char :: "nat \<Rightarrow> char" where
  "digit_char d = ''0123456789'' ! d"

fun str_nat :: "nat \<Rightarrow> string" where
  "str_nat n = (if n < 10 then [digit_char n] else str_nat (n div 10) @ [digit_char (n mod 10)])"

declare str_nat.simps [simp del]

definition str_int :: "int \<Rightarrow> string" where
  "str_int i = (if i < 0 then CHR ''-'' # str_nat (nat (- i)) else str_nat (nat i))"

text \<open>The slice \<^verbatim>\<open>xs[:n]\<close>: the first \<open>n\<close> items, and for a negative \<open>n\<close> all but
  the last \<open>- n\<close>.\<close>

definition slice_to :: "'a list \<Rightarrow> int \<Rightarrow> 'a list" where
  "slice_to xs n = (if 0 \<le> n then take (nat n) xs else take (nat (int (length xs) + n)) xs)"

text \<open>\<^verbatim>\<open>sorted(xs, key=key, reverse=True)\<close>: the list is reversed, sorted by a stable
  ascending sort and reversed again, so that items with equal keys keep their order.\<close>

definition sorted_reverse :: "('a \<Rightarrow> 'k::linorder) \<Rightarrow> 'a list \<Rightarrow> 'a list" where
  "sorted_reverse key xs = rev (sort_key key (rev xs))"

section \<open>The normaliser\<close>

definition thumbnail_key :: "raw_thumbnail \<Rightarrow> int \<times> int" where
  "thumbnail_key x = (get (rt_width x) 0, get (rt_height x) 0)"

definition get_best_thumbnail :: "raw_thumbnail list \<Rightarrow> string" where
  "get_best_thumbnail thumbnails =
     (if thumbnails = [] then []
      else (case sorted_reverse thumbnail_key thumbnails of
              [] \<Rightarrow> []
            | best # _ \<Rightarrow> get (rt_url best) []))"

definition clean_format_of :: "raw_format \<Rightarrow> clean_format" where
  "clean_format_of fmt =
     \<lparr> f_format_id = get (rf_format_id fmt) [],
       f_url = get (rf_url fmt) [],
       f_ext = get (rf_ext fmt) [],
       f_format = get (rf_format fmt) [],
       f_protocol = rf_protocol fmt,
       f_vcodec = rf_vcodec fmt,
       f_acodec = rf_acodec fmt,
       f_width = rf_width fmt,
       f_height = rf_height fmt,
       f_fps = rf_fps fmt,
       f_tbr = rf_tbr fmt,
       f_vbr = rf_vbr fmt,
       f_abr = rf_abr fmt,
       f_asr = rf_asr fmt,
       f_filesize = rf_filesize fmt,
       f_quality = rf_quality fmt,
       f_language = rf_language fmt,
       f_preference = rf_preference fmt \<rparr>"

definition clean_formats :: "raw_format list \<Rightarrow> clean_format list" where
  "clean_formats formats = map clean_format_of formats"

definition clean_thumbnail_of :: "raw_thumbnail \<Rightarrow> clean_thumbnail" where
  "clean_thumbnail_of thumb =
     \<lparr> t_id = rt_id thumb,
       t_url = get (rt_url thumb) [],
       t_width = rt_width thumb,
       t_height = rt_height thumb,
       t_resolution = rt_resolution thumb \<rparr>"

definition clean_thumbnails :: "raw_thumbnail list \<Rightarrow> clean_thumbnail list" where
  "clean_thumbnails thumbnails = map clean_thumbnail_of thumbnails"

text \<open>The dictionary \<^verbatim>\<open>clean_info\<close> built by \<^verbatim>\<open>_extract_info_sync\<close> from the info
  dictionary and the requested URL.\<close>

definition clean_info_of :: "string \<Rightarrow> raw_info \<Rightarrow> clean_info" where
  "clean_info_of url info =
     \<lparr> v_id = get (ri_id info) [],
       v_title = get (ri_title info) [],
       v_description = get (ri_description info) [],
       v_duration = ri_duration info,
       v_webpage_url = get (ri_webpage_url info) url,
       v_thumbnail = get_best_thumbnail (get (ri_thumbnails info) []),
       v_uploader = get (ri_uploader info) [],
       v_upload_date = get (ri_upload_date info) [],
       v_view_count = ri_view_count info,
       v_extractor = get (ri_extractor info) [],
       v_extractor_key = get (ri_extractor_key info) [],
       v_available = True,
       v_live_status = ri_live_status info,
       v_formats = clean_formats (get (ri_formats info) []),
       v_thumbnails = clean_thumbnails (get (ri_thumbnails info) []),
       v_tags = get (ri_tags info) [],
       v_categories = get (ri_categories info) [] \<rparr>"

text \<open>The dictionary \<^verbatim>\<open>video_info\<close> built by \<^verbatim>\<open>_search_sync\<close> for one entry.\<close>

definition video_info_of :: "raw_info \<Rightarrow> video_info" where
  "video_info_of entry =
     \<lparr> v_id = get (ri_id entry) [],
       v_title = get (ri_title entry) [],
       v_description = get (ri_description entry) [],
       v_duration = ri_duration entry,
       v_webpage_url = get (ri_webpage_url entry) [],
       v_thumbnail = get_best_thumbnail (get (ri_thumbnails entry) []),
       v_uploader = get (ri_uploader entry) [],
       v_upload_date = get (ri_upload_date entry) [],
       v_view_count = ri_view_count entry,
       v_extractor = get (ri_extractor entry) [],
       v_extractor_key = get (ri_extractor_key entry) [],
       v_available = True,
       v_live_status = ri_live_status entry,
       v_formats = clean_formats (get (ri_formats entry) []),
       v_thumbnails = clean_thumbnails (get (ri_thumbnails entry) []) \<rparr>"

section \<open>The service\<close>

subsection \<open>State, requests and responses\<close>

text \<open>
  What the cache holds under \<^verbatim>\<open>'data'\<close>: the cleaned info of an extraction or the
  results of a search. Times are integers (microseconds, the resolution of
  \<^verbatim>\<open>datetime\<close>); \<open>timestamp\<close> is the reading of \<^verbatim>\<open>datetime.now()\<close> at the store.
\<close>

datatype cached_data = VideoData clean_info | SearchData search_results

record cache_entry =
  data :: cached_data
  timestamp :: int

text \<open>The fields of \<^verbatim>\<open>YTDLPService\<close> the handlers use: the two counters, the cache
  dictionary, the time to live and the \<^verbatim>\<open>'format'\<close> entry of \<^verbatim>\<open>ytdl_opts\<close>.\<close>

record service =
  request_count :: int
  error_count :: int
  cache :: "string \<rightharpoonup> cache_entry"
  cache_ttl :: int
  ytdl_format :: string

text \<open>The JSON bodies of the two requests. A missing key is \<open>None\<close>.\<close>

record extract_request =
  url :: "string option"
  format :: "string option"

record search_request =
  rq_query :: "string option"
  rq_max_results :: "int option"

text \<open>The JSON envelope of a response: the data on success, the error text and the
  code (which is also the HTTP status) on failure.\<close>

datatype response = Success cached_data | Failure string int

text \<open>
  A call of \<^verbatim>\<open>YoutubeDL(opts).extract_info(target, download=False)\<close> is identified by
  the format in \<open>opts\<close> and the target. The library is a parameter of the model: a
  function from the call to what the call does, \<open>Inl msg\<close> when it raises an exception
  with text \<open>msg\<close> and \<open>Inr r\<close> when it returns \<open>r\<close> (\<open>None\<close> for Python's
  \<^verbatim>\<open>None\<close>). Every function that may call the library returns the list of the
  calls it made.
\<close>

type_synonym ydl_call = "string \<times> string"

type_synonym 'r ydl = "ydl_call \<Rightarrow> string + 'r option"

subsection \<open>The cache and the initial state\<close>

text \<open>\<^verbatim>\<open>__init__\<close>: both counters at zero, an empty cache, the time to live computed
  from \<^verbatim>\<open>cache_ttl_hours\<close> and the format taken from the configuration.\<close>

definition init :: "int \<Rightarrow> string \<Rightarrow> service" where
  "init cache_ttl_hours config_format =
     \<lparr> request_count = 0, error_count = 0, cache = Map.empty,
       cache_ttl = cache_ttl_hours * 3600000000, ytdl_format = config_format \<rparr>"

text \<open>
  The cache check at the top of both handlers: the key must be in the dictionary and
  the age of its entry, at the reading \<open>now\<close> of the clock, strictly less than the time
  to live. The dictionary is only read.
\<close>

definition cache_lookup :: "service \<Rightarrow> int \<Rightarrow> string \<Rightarrow> cached_data option" where
  "cache_lookup self now cache_key =
     (case cache self cache_key of
        None \<Rightarrow> None
      | Some cache_entry \<Rightarrow>
          if now - timestamp cache_entry < cache_ttl self then Some (data cache_entry)
          else None)"

text \<open>The store after a successful call of the library: the entry of the key is
  replaced by the new data and the reading \<open>now\<close> of the clock.\<close>

definition cache_store :: "service \<Rightarrow> string \<Rightarrow> cached_data \<Rightarrow> int \<Rightarrow> service" where
  "cache_store self cache_key d now =
     self\<lparr>cache := (cache self)(cache_key \<mapsto> \<lparr>data = d, timestamp = now\<rparr>)\<rparr>"

subsection \<open>Extraction\<close>

text \<open>\<^verbatim>\<open>_extract_info_sync\<close>: the format override replaces the configured format when
  it is a non-empty string; an exception of the library and an empty result both give
  \<^verbatim>\<open>None\<close>.\<close>

definition extract_info_sync ::
  "raw_info ydl \<Rightarrow> service \<Rightarrow> string \<Rightarrow> string option \<Rightarrow> clean_info option \<times> ydl_call list" where
  "extract_info_sync ydl self u format_override =
     (let opts_format = (if str_truthy format_override then get format_override [] else ytdl_format self);
          call = (opts_format, u)
      in case ydl call of
           Inl e \<Rightarrow> (None, [call])
         | Inr None \<Rightarrow> (None, [call])
         | Inr (Some info) \<Rightarrow>
             if dict_empty info then (None, [call])
             else (Some (clean_info_of u info), [call]))"

text \<open>The key under which an extraction is cached.\<close>

definition extract_cache_key :: "string \<Rightarrow> string" where
  "extract_cache_key u = ''extract:'' @ u"

text \<open>
  The handler \<^verbatim>\<open>extract_info\<close>. The request is \<open>Inl msg\<close> when reading the JSON body
  raises an exception with text \<open>msg\<close>. \<open>now_check\<close> is the reading of the clock at the
  cache check and \<open>now_store\<close> the reading at the store. The result is the response, the
  service afterwards and the calls made to the library. A request is one step of the
  model: what other requests do to the service while this one waits for the library is
  not modelled.
\<close>

definition extract_info ::
  "raw_info ydl \<Rightarrow> int \<Rightarrow> int \<Rightarrow> string + extract_request \<Rightarrow> service
     \<Rightarrow> response \<times> service \<times> ydl_call list" where
  "extract_info ydl now_check now_store request self =
     (case request of
        Inl e \<Rightarrow> (Failure e 500, self\<lparr>error_count := error_count self + 1\<rparr>, [])
      | Inr body \<Rightarrow>
          if \<not> str_truthy (url body) then (Failure ''URL is required'' 400, self, [])
          else
            let u = get (url body) [];
                self1 = self\<lparr>request_count := request_count self + 1\<rparr>;
                cache_key = extract_cache_key u
            in case cache_lookup self1 now_check cache_key of
                 Some d \<Rightarrow> (Success d, self1, [])
               | None \<Rightarrow>
                   (case extract_info_sync ydl self1 u (format body) of
                      (Some info, calls) \<Rightarrow>
                        (Success (VideoData info),
                         cache_store self1 cache_key (VideoData info) now_store,
                         calls)
                    | (None, calls) \<Rightarrow>
                        (Failure ''Failed to extract video information'' 404,
                         self1\<lparr>error_count := error_count self1 + 1\<rparr>,
                         calls)))"

subsection \<open>Search\<close>

text \<open>The target handed to the library for a search.\<close>

definition search_query :: "string \<Rightarrow> int \<Rightarrow> string" where
  "search_query q max_results = ''ytsearch'' @ str_int max_results @ '':'' @ q"

text \<open>The loop of \<^verbatim>\<open>_search_sync\<close> over the sliced entries: an entry that is
  \<^verbatim>\<open>None\<close> or an empty dictionary is skipped, any other is appended as a video.\<close>

fun collect_videos :: "raw_info option list \<Rightarrow> video_info list" where
  "collect_videos [] = []"
| "collect_videos (entry # rest) =
     (case entry of
        None \<Rightarrow> collect_videos rest
      | Some d \<Rightarrow> if dict_empty d then collect_videos rest
                  else video_info_of d # collect_videos rest)"

text \<open>\<^verbatim>\<open>_search_sync\<close>: a result that is \<^verbatim>\<open>None\<close> or has no key
  \<^verbatim>\<open>entries\<close> gives the empty result (an empty dictionary has no key); otherwise the
  loop runs over the slice of the entries; an exception of the library gives
  \<^verbatim>\<open>None\<close>.\<close>

definition search_sync ::
  "raw_search ydl \<Rightarrow> service \<Rightarrow> string \<Rightarrow> int \<Rightarrow> search_results option \<times> ydl_call list" where
  "search_sync ydl self q max_results =
     (let call = (ytdl_format self, search_query q max_results)
      in case ydl call of
           Inl e \<Rightarrow> (None, [call])
         | Inr None \<Rightarrow> (Some \<lparr>videos = [], total_count = 0, query = q\<rparr>, [call])
         | Inr (Some res) \<Rightarrow>
             (case rs_entries res of
                None \<Rightarrow> (Some \<lparr>videos = [], total_count = 0, query = q\<rparr>, [call])
              | Some entries \<Rightarrow>
                  let vs = collect_videos (slice_to entries max_results)
                  in (Some \<lparr>videos = vs, total_count = length vs, query = q\<rparr>, [call])))"

text \<open>The key under which a search is cached.\<close>

definition search_cache_key :: "string \<Rightarrow> int \<Rightarrow> string" where
  "search_cache_key q max_results = ''search:'' @ q @ '':'' @ str_int max_results"

text \<open>The handler \<^verbatim>\<open>search\<close>; \<^verbatim>\<open>max_results\<close> is 10 when the body has no such
  key.\<close>

definition search ::
  "raw_search ydl \<Rightarrow> int \<Rightarrow> int \<Rightarrow> string + search_request \<Rightarrow> service
     \<Rightarrow> response \<times> service \<times> ydl_call list" where
  "search ydl now_check now_store request self =
     (case request of
        Inl e \<Rightarrow> (Failure e 500, self\<lparr>error_count := error_count self + 1\<rparr>, [])
      | Inr body \<Rightarrow>
          if \<not> str_truthy (rq_query body) then (Failure ''Query is required'' 400, self, [])
          else
            let q = get (rq_query body) [];
                max_results = get (rq_max_results body) 10;
                self1 = self\<lparr>request_count := request_count self + 1\<rparr>;
                cache_key = search_cache_key q max_results
            in case cache_lookup self1 now_check cache_key of
                 Some d \<Rightarrow> (Success d, self1, [])
               | None \<Rightarrow>
                   (case search_sync ydl self1 q max_results of
                      (Some results, calls) \<Rightarrow>
                        (Success (SearchData results),
                         cache_store self1 cache_key (SearchData results) now_store,
                         calls)
                    | (None, calls) \<Rightarrow>
                        (Failure ''Search failed'' 500,
                         self1\<lparr>error_count := error_count self1 + 1\<rparr>,
                         calls)))"

subsection \<open>Clearing and sweeping the cache\<close>

text \<open>The handler \<^verbatim>\<open>clear_cache\<close> empties the dictionary.\<close>

definition clear_cache :: "service \<Rightarrow> service" where
  "clear_cache self = self\<lparr>cache := Map.empty\<rparr>"

text \<open>\<^verbatim>\<open>cleanup_cache\<close>, run every five minutes, deletes the entries older than the
  time to live at the reading \<open>now\<close> of the clock.\<close>

definition cleanup_cache :: "int \<Rightarrow> service \<Rightarrow> service" where
  "cleanup_cache now self =
     self\<lparr>cache := (\<lambda>key. case cache self key of
                              None \<Rightarrow> None
                            | Some entry \<Rightarrow>
                                if now - timestamp entry > cache_ttl self then None
                                else Some entry)\<rparr>"

section \<open>Example inputs\<close>

text \<open>Three behaviours of the library: it raises, it returns \<^verbatim>\<open>None\<close>, it returns a
  given result whatever the call.\<close>

definition ydl_raises :: "'r ydl" where
  "ydl_raises call = Inl ''network error''"

definition ydl_none :: "'r ydl" where
  "ydl_none call = Inr None"

definition ydl_returns :: "'r \<Rightarrow> 'r ydl" where
  "ydl_returns r call = Inr (Some r)"

text \<open>The empty dictionary, a dictionary that holds none of the keys the service reads,
  and a dictionary with an id and a title.\<close>

definition empty_dict :: raw_info where
  "empty_dict =
     \<lparr> ri_id = None, ri_title = None, ri_description = None, ri_duration = None,
       ri_webpage_url = None, ri_thumbnails = None, ri_uploader = None,
       ri_upload_date = None, ri_view_count = None, ri_extractor = None,
       ri_extractor_key = None, ri_live_status = None, ri_tags = None,
       ri_categories = None, ri_formats = None, ri_other_keys = [] \<rparr>"

definition bare_info :: raw_info where
  "bare_info = empty_dict\<lparr>ri_other_keys := [''_type'']\<rparr>"

definition titled_info :: "string \<Rightarrow> string \<Rightarrow> raw_info" where
  "titled_info i t = empty_dict\<lparr>ri_id := Some i, ri_title := Some t\<rparr>"

text \<open>A thumbnail with a URL, a width and a height, and one with a URL only.\<close>

definition sized_thumbnail :: "string \<Rightarrow> int \<Rightarrow> int \<Rightarrow> raw_thumbnail" where
  "sized_thumbnail u w h =
     \<lparr> rt_id = None, rt_url = Some u, rt_width = Some w, rt_height = Some h,
       rt_resolution = None \<rparr>"

definition plain_thumbnail :: "string \<Rightarrow> raw_thumbnail" where
  "plain_thumbnail u =
     \<lparr> rt_id = None, rt_url = Some u, rt_width = None, rt_height = None,
       rt_resolution = None \<rparr>"

text \<open>The service as started with the default configuration, and as started with a time
  to live of zero hours.\<close>

definition default_service :: service where
  "default_service = init 24 ''bestaudio/best''"

definition zero_ttl_service :: service where
  "zero_ttl_service = init 0 ''bestaudio/best''"

text \<open>The default service after an extraction of \<^verbatim>\<open>http://old\<close> was stored at
  time 0.\<close>

definition old_video :: cached_data where
  "old_video = VideoData (clean_info_of ''http://old'' (titled_info ''old1'' ''Old video''))"

definition stale_service :: service where
  "stale_service = cache_store default_service (extract_cache_key ''http://old'') old_video 0"

text \<open>The default service after a first extraction of \<^verbatim>\<open>http://valid\<close>, for which
  the library returned a dictionary with an id and a title, was stored at time 7.\<close>

definition song_video :: cached_data where
  "song_video = VideoData (clean_info_of ''http://valid'' (titled_info ''abc123'' ''Song''))"

definition song_service :: service where
  "song_service =
     cache_store (default_service\<lparr>request_count := 1\<rparr>) (extract_cache_key ''http://valid'')
       song_video 7"

text \<open>A search result with five entries, the second of which is \<^verbatim>\<open>None\<close>.\<close>

definition five_entries :: raw_search where
  "five_entries =
     \<lparr> rs_entries = Some [Some (titled_info ''a'' ''A''), None, Some (titled_info ''b'' ''B''),
                          Some (titled_info ''c'' ''C''), Some (titled_info ''d'' ''D'')] \<rparr>"

section \<open>Thumbnail selection\<close>

text \<open>Filtering keeps the last item of a list when the item passes the filter.\<close>

lemma last_filter_keep: "ys \<noteq> [] \<Longrightarrow> P (last ys) \<Longrightarrow> last (filter P ys) = last ys"
proof (induction ys)
  case Nil
  then show ?case by simp
next
  case (Cons a ys)
  show ?case
  proof (cases "ys = []")
    case True
    with Cons.prems show ?thesis by simp
  next
    case False
    with Cons.prems have "P (last ys)" by simp
    with False have "filter P ys \<noteq> []"
      by (metis filter_empty_conv last_in_set)
    with False Cons.IH \<open>P (last ys)\<close> show ?thesis by simp
  qed
qed

text \<open>The last item of the stable sort of the reversed list is the first item of the
  list with the greatest key: every item before it has a strictly smaller key.\<close>

lemma last_sort_key_rev:
  fixes f :: "'a \<Rightarrow> 'k::linorder"
  assumes "xs \<noteq> []"
  shows "\<exists>us vs. xs = us @ last (sort_key f (rev xs)) # vs
           \<and> (\<forall>u\<in>set us. f u < f (last (sort_key f (rev xs))))
           \<and> (\<forall>v\<in>set vs. f v \<le> f (last (sort_key f (rev xs))))"
proof -
  define ys where "ys = sort_key f (rev xs)"
  define m where "m = last ys"
  have ne: "ys \<noteq> []" using assms by (auto simp: ys_def dest: arg_cong[where f=length])
  have srt: "sorted (map f ys)" by (simp add: ys_def)
  have top: "f y \<le> f m" if "y \<in> set ys" for y
  proof -
    from ne have "ys = butlast ys @ [m]" by (simp add: m_def)
    with srt have "sorted (map f (butlast ys @ [m]))" by simp
    then have "\<forall>b\<in>set (butlast ys). f b \<le> f m" by (simp add: sorted_append)
    moreover from that \<open>ys = butlast ys @ [m]\<close> have "y \<in> set (butlast ys) \<or> y = m"
      by (metis Un_iff insert_iff list.set(2) empty_iff set_append empty_set)
    ultimately show ?thesis by auto
  qed
  have set_eq: "set ys = set xs" by (simp add: ys_def)
  have "filter (\<lambda>y. f y = f m) ys = filter (\<lambda>y. f y = f m) (rev xs)"
    unfolding ys_def by (rule sort_key_stable)
  then have flt: "filter (\<lambda>y. f y = f m) ys = rev (filter (\<lambda>y. f y = f m) xs)"
    by (simp add: rev_filter)
  have "last (filter (\<lambda>y. f y = f m) ys) = m"
    using ne by (simp add: m_def last_filter_keep)
  moreover have "filter (\<lambda>y. f y = f m) ys \<noteq> []"
    using ne by (metis (mono_tags, lifting) filter_empty_conv last_in_set m_def)
  ultimately have "hd (filter (\<lambda>y. f y = f m) xs) = m" "filter (\<lambda>y. f y = f m) xs \<noteq> []"
    using flt by (auto simp: last_rev[symmetric] simp del: last_rev)
  then obtain rest where "filter (\<lambda>y. f y = f m) xs = m # rest"
    by (cases "filter (\<lambda>y. f y = f m) xs") auto
  then obtain us vs where dec: "xs = us @ m # vs" and us: "\<forall>u\<in>set us. f u \<noteq> f m"
    by (auto simp: filter_eq_Cons_iff)
  have "\<forall>u\<in>set us. f u < f m"
    using us top set_eq dec by (metis Un_iff le_neq_trans set_append)
  moreover have "\<forall>v\<in>set vs. f v \<le> f m"
    using top set_eq dec by auto
  ultimately show ?thesis using dec unfolding m_def ys_def by blast
qed


text \<open>So the head of the list sorted in reverse is that item.\<close>

lemma sorted_reverse_head:
  fixes f :: "'a \<Rightarrow> 'k::linorder"
  assumes "xs \<noteq> []"
  shows "\<exists>best rest us vs. sorted_reverse f xs = best # rest \<and> xs = us @ best # vs
           \<and> (\<forall>u\<in>set us. f u < f best) \<and> (\<forall>v\<in>set vs. f v \<le> f best)"
proof -
  define ys where "ys = sort_key f (rev xs)"
  have "length ys = length xs" by (simp add: ys_def)
  with assms have ne: "ys \<noteq> []" by auto
  then have "rev ys = last ys # rev (butlast ys)"
    by (metis append_butlast_last_id rev.simps(2) rev_append rev_rev_ident append_Nil rev.simps(1) append_Cons)
  then have "sorted_reverse f xs = last ys # rev (butlast ys)"
    by (simp add: sorted_reverse_def ys_def)
  with last_sort_key_rev[OF assms, of f] show ?thesis
    unfolding ys_def by blast
qed

text \<open>
  Claim C6. For every list of thumbnails, \<^verbatim>\<open>_get_best_thumbnail\<close> returns the empty
  string on the empty list, and otherwise the URL (the empty string when the URL is
  absent) of the thumbnail at an index \<open>i\<close> such that no thumbnail has a greater pair
  (width, height) in the lexicographic order, and every thumbnail before \<open>i\<close> has a
  strictly smaller pair: the greatest pair wins, and among equal pairs the earliest
  thumbnail. An absent width or height counts as 0.
\<close>

theorem get_best_thumbnail_greatest_first:
  "get_best_thumbnail [] = [] \<and>
   (thumbnails \<noteq> [] \<longrightarrow>
     (\<exists>i<length thumbnails.
        get_best_thumbnail thumbnails = get (rt_url (thumbnails ! i)) [] \<and>
        (\<forall>j<length thumbnails.
           get (rt_width (thumbnails ! j)) 0 < get (rt_width (thumbnails ! i)) 0 \<or>
           get (rt_width (thumbnails ! j)) 0 = get (rt_width (thumbnails ! i)) 0 \<and>
           get (rt_height (thumbnails ! j)) 0 \<le> get (rt_height (thumbnails ! i)) 0) \<and>
        (\<forall>j<i.
           get (rt_width (thumbnails ! j)) 0 < get (rt_width (thumbnails ! i)) 0 \<or>
           get (rt_width (thumbnails ! j)) 0 = get (rt_width (thumbnails ! i)) 0 \<and>
           get (rt_height (thumbnails ! j)) 0 < get (rt_height (thumbnails ! i)) 0)))"
proof (intro conjI impI)
  show "get_best_thumbnail [] = []" by (simp add: get_best_thumbnail_def)
next
  assume ne: "thumbnails \<noteq> []"
  from sorted_reverse_head[OF ne, of thumbnail_key]
  obtain best rest us vs where
    srt: "sorted_reverse thumbnail_key thumbnails = best # rest" and
    dec: "thumbnails = us @ best # vs" and
    before: "\<forall>u\<in>set us. thumbnail_key u < thumbnail_key best" and
    after: "\<forall>v\<in>set vs. thumbnail_key v \<le> thumbnail_key best"
    by blast
  let ?i = "length us"
  have i: "?i < length thumbnails" and at: "thumbnails ! ?i = best"
    using dec by simp_all
  have res: "get_best_thumbnail thumbnails = get (rt_url (thumbnails ! ?i)) []"
    using ne srt at by (simp add: get_best_thumbnail_def)
  have all: "thumbnail_key (thumbnails ! j) \<le> thumbnail_key best" if "j < length thumbnails" for j
  proof -
    from that have "thumbnails ! j \<in> set thumbnails" by simp
    with dec have "thumbnails ! j \<in> set us \<or> thumbnails ! j = best \<or> thumbnails ! j \<in> set vs"
      by auto
    with before after show ?thesis by (auto intro: less_imp_le)
  qed
  have early: "thumbnail_key (thumbnails ! j) < thumbnail_key best" if "j < ?i" for j
  proof -
    from that dec have "thumbnails ! j = us ! j" by (simp add: nth_append)
    with that before show ?thesis by simp
  qed
  show "\<exists>i<length thumbnails.
        get_best_thumbnail thumbnails = get (rt_url (thumbnails ! i)) [] \<and>
        (\<forall>j<length thumbnails.
           get (rt_width (thumbnails ! j)) 0 < get (rt_width (thumbnails ! i)) 0 \<or>
           get (rt_width (thumbnails ! j)) 0 = get (rt_width (thumbnails ! i)) 0 \<and>
           get (rt_height (thumbnails ! j)) 0 \<le> get (rt_height (thumbnails ! i)) 0) \<and>
        (\<forall>j<i.
           get (rt_width (thumbnails ! j)) 0 < get (rt_width (thumbnails ! i)) 0 \<or>
           get (rt_width (thumbnails ! j)) 0 = get (rt_width (thumbnails ! i)) 0 \<and>
           get (rt_height (thumbnails ! j)) 0 < get (rt_height (thumbnails ! i)) 0)"
  proof (intro exI[of _ ?i] conjI allI impI)
    show "?i < length thumbnails" by (rule i)
    show "get_best_thumbnail thumbnails = get (rt_url (thumbnails ! ?i)) []" by (rule res)
  next
    fix j assume "j < length thumbnails"
    from all[OF this] show
      "get (rt_width (thumbnails ! j)) 0 < get (rt_width (thumbnails ! ?i)) 0 \<or>
       get (rt_width (thumbnails ! j)) 0 = get (rt_width (thumbnails ! ?i)) 0 \<and>
       get (rt_height (thumbnails ! j)) 0 \<le> get (rt_height (thumbnails ! ?i)) 0"
      unfolding at by (auto simp: thumbnail_key_def less_eq_prod_def)
  next
    fix j assume "j < ?i"
    from early[OF this] show
      "get (rt_width (thumbnails ! j)) 0 < get (rt_width (thumbnails ! ?i)) 0 \<or>
       get (rt_width (thumbnails ! j)) 0 = get (rt_width (thumbnails ! ?i)) 0 \<and>
       get (rt_height (thumbnails ! j)) 0 < get (rt_height (thumbnails ! ?i)) 0"
      unfolding at by (auto simp: thumbnail_key_def less_prod_def)
  qed
qed

theorem get_best_thumbnail_greatest_first_witness:
  "[sized_thumbnail ''a'' 120 90, sized_thumbnail ''b'' 640 480, sized_thumbnail ''c'' 640 360] \<noteq> [] \<and>
   get_best_thumbnail
     [sized_thumbnail ''a'' 120 90, sized_thumbnail ''b'' 640 480, sized_thumbnail ''c'' 640 360] = ''b'' \<and>
   (\<exists>i<length [sized_thumbnail ''a'' 120 90, sized_thumbnail ''b'' 640 480, sized_thumbnail ''c'' 640 360].
      get_best_thumbnail
        [sized_thumbnail ''a'' 120 90, sized_thumbnail ''b'' 640 480, sized_thumbnail ''c'' 640 360] =
      get (rt_url ([sized_thumbnail ''a'' 120 90, sized_thumbnail ''b'' 640 480,
                    sized_thumbnail ''c'' 640 360] ! i)) [])"
proof -
  let ?ex = "[sized_thumbnail ''a'' 120 90, sized_thumbnail ''b'' 640 480, sized_thumbnail ''c'' 640 360]"
  have ne: "?ex \<noteq> []" by simp
  have val: "get_best_thumbnail ?ex = ''b''"
    by (simp add: get_best_thumbnail_def sorted_reverse_def thumbnail_key_def
        sized_thumbnail_def get_def)
  from get_best_thumbnail_greatest_first[of ?ex, THEN conjunct2, THEN mp, OF ne]
  obtain i where "i < length ?ex" "get_best_thumbnail ?ex = get (rt_url (?ex ! i)) []"
    by blast
  with ne val show ?thesis by blast
qed

section \<open>The paths of the two handlers\<close>

text \<open>The counters play no part in the cache check, and the store leaves them alone.\<close>

lemma cache_lookup_counters [simp]:
  "cache_lookup (self\<lparr>request_count := n\<rparr>) now k = cache_lookup self now k"
  "cache_lookup (self\<lparr>error_count := m\<rparr>) now k = cache_lookup self now k"
  by (simp_all add: cache_lookup_def split: option.splits)

lemma cache_store_counters [simp]:
  "request_count (cache_store self k d now) = request_count self"
  "error_count (cache_store self k d now) = error_count self"
  "cache_ttl (cache_store self k d now) = cache_ttl self"
  "ytdl_format (cache_store self k d now) = ytdl_format self"
  by (simp_all add: cache_store_def)

text \<open>Both synchronous functions call the library exactly once.\<close>

lemma extract_info_sync_calls:
  "snd (extract_info_sync ydl self u fo) =
     [(if str_truthy fo then get fo [] else ytdl_format self, u)]"
  by (simp add: extract_info_sync_def Let_def split: sum.splits option.splits)

lemma search_sync_calls:
  "snd (search_sync ydl self q m) = [(ytdl_format self, search_query q m)]"
  by (simp add: search_sync_def Let_def split: sum.splits option.splits)

text \<open>The four paths of \<^verbatim>\<open>extract_info\<close>: a missing or empty URL, a body that cannot be
  read, a cache hit, and a cache miss, which goes on to the library.\<close>

lemma extract_info_invalid:
  "\<not> str_truthy (url body) \<Longrightarrow>
   extract_info ydl nc ns (Inr body) self = (Failure ''URL is required'' 400, self, [])"
  by (simp add: extract_info_def)

lemma extract_info_unreadable:
  "extract_info ydl nc ns (Inl e) self = (Failure e 500, self\<lparr>error_count := error_count self + 1\<rparr>, [])"
  by (simp add: extract_info_def)

lemma extract_info_hit:
  "str_truthy (url body) \<Longrightarrow>
   cache_lookup self nc (extract_cache_key (get (url body) [])) = Some d \<Longrightarrow>
   extract_info ydl nc ns (Inr body) self =
     (Success d, self\<lparr>request_count := request_count self + 1\<rparr>, [])"
  by (simp add: extract_info_def Let_def)

lemma extract_info_miss:
  "str_truthy (url body) \<Longrightarrow>
   cache_lookup self nc (extract_cache_key (get (url body) [])) = None \<Longrightarrow>
   extract_info ydl nc ns (Inr body) self =
     (case extract_info_sync ydl (self\<lparr>request_count := request_count self + 1\<rparr>)
             (get (url body) []) (format body) of
        (Some info, calls) \<Rightarrow>
          (Success (VideoData info),
           cache_store (self\<lparr>request_count := request_count self + 1\<rparr>)
             (extract_cache_key (get (url body) [])) (VideoData info) ns,
           calls)
      | (None, calls) \<Rightarrow>
          (Failure ''Failed to extract video information'' 404,
           self\<lparr>request_count := request_count self + 1, error_count := error_count self + 1\<rparr>,
           calls))"
  by (simp add: extract_info_def Let_def split: prod.splits option.splits)

text \<open>The same four paths of \<^verbatim>\<open>search\<close>.\<close>

lemma search_invalid:
  "\<not> str_truthy (rq_query body) \<Longrightarrow>
   search ydl nc ns (Inr body) self = (Failure ''Query is required'' 400, self, [])"
  by (simp add: search_def)

lemma search_unreadable:
  "search ydl nc ns (Inl e) self = (Failure e 500, self\<lparr>error_count := error_count self + 1\<rparr>, [])"
  by (simp add: search_def)

lemma search_hit:
  "str_truthy (rq_query body) \<Longrightarrow>
   cache_lookup self nc (search_cache_key (get (rq_query body) []) (get (rq_max_results body) 10)) = Some d \<Longrightarrow>
   search ydl nc ns (Inr body) self =
     (Success d, self\<lparr>request_count := request_count self + 1\<rparr>, [])"
  by (simp add: search_def Let_def)

lemma search_miss:
  "str_truthy (rq_query body) \<Longrightarrow>
   cache_lookup self nc (search_cache_key (get (rq_query body) []) (get (rq_max_results body) 10)) = None \<Longrightarrow>
   search ydl nc ns (Inr body) self =
     (case search_sync ydl (self\<lparr>request_count := request_count self + 1\<rparr>)
             (get (rq_query body) []) (get (rq_max_results body) 10) of
        (Some results, calls) \<Rightarrow>
          (Success (SearchData results),
           cache_store (self\<lparr>request_count := request_count self + 1\<rparr>)
             (search_cache_key (get (rq_query body) []) (get (rq_max_results body) 10))
             (SearchData results) ns,
           calls)
      | (None, calls) \<Rightarrow>
          (Failure ''Search failed'' 500,
           self\<lparr>request_count := request_count self + 1, error_count := error_count self + 1\<rparr>,
           calls))"
  by (simp add: search_def Let_def split: prod.splits option.splits)

section \<open>The counters\<close>

text \<open>
  Claim C2, as amended. A request to \<^verbatim>\<open>extract_info\<close> with a non-empty URL, or to
  \<^verbatim>\<open>search\<close> with a non-empty query, adds exactly one to the request counter,
  whatever the cache and the library do afterwards. A request that fails validation (URL
  or query missing or empty), or whose body cannot be read, leaves the request counter as
  it was: the handler returns before the counter is touched.
\<close>

theorem request_count_once_when_valid:
  "(str_truthy (url body) \<longrightarrow>
      request_count (fst (snd (extract_info ydl nc ns (Inr body) self))) = request_count self + 1) \<and>
   (\<not> str_truthy (url body) \<longrightarrow>
      request_count (fst (snd (extract_info ydl nc ns (Inr body) self))) = request_count self) \<and>
   request_count (fst (snd (extract_info ydl nc ns (Inl e) self))) = request_count self \<and>
   (str_truthy (rq_query sbody) \<longrightarrow>
      request_count (fst (snd (search sydl nc ns (Inr sbody) self))) = request_count self + 1) \<and>
   (\<not> str_truthy (rq_query sbody) \<longrightarrow>
      request_count (fst (snd (search sydl nc ns (Inr sbody) self))) = request_count self) \<and>
   request_count (fst (snd (search sydl nc ns (Inl e) self))) = request_count self"
proof (intro conjI impI)
  assume v: "str_truthy (url body)"
  show "request_count (fst (snd (extract_info ydl nc ns (Inr body) self))) = request_count self + 1"
  proof (cases "cache_lookup self nc (extract_cache_key (get (url body) []))")
    case None
    from extract_info_miss[OF v None] show ?thesis
      by (simp split: prod.splits option.splits)
  next
    case (Some d)
    from extract_info_hit[OF v Some] show ?thesis by simp
  qed
next
  assume v: "str_truthy (rq_query sbody)"
  show "request_count (fst (snd (search sydl nc ns (Inr sbody) self))) = request_count self + 1"
  proof (cases "cache_lookup self nc (search_cache_key (get (rq_query sbody) []) (get (rq_max_results sbody) 10))")
    case None
    from search_miss[OF v None] show ?thesis
      by (simp split: prod.splits option.splits)
  next
    case (Some d)
    from search_hit[OF v Some] show ?thesis by simp
  qed
qed (simp_all add: extract_info_invalid extract_info_unreadable search_invalid search_unreadable)

text \<open>The theorem at a valid and at an invalid request of each handler, on the service as
  started.\<close>

theorem request_count_once_when_valid_witness:
  "str_truthy (url \<lparr>url = Some ''http://valid'', format = None\<rparr>) \<and>
   request_count (fst (snd (extract_info ydl_raises 0 0
      (Inr \<lparr>url = Some ''http://valid'', format = None\<rparr>) default_service))) = 1 \<and>
   \<not> str_truthy (url \<lparr>url = None, format = None\<rparr>) \<and>
   request_count (fst (snd (extract_info ydl_raises 0 0
      (Inr \<lparr>url = None, format = None\<rparr>) default_service))) = 0 \<and>
   str_truthy (rq_query \<lparr>rq_query = Some ''lofi'', rq_max_results = Some 3\<rparr>) \<and>
   request_count (fst (snd (search ydl_none 0 0
      (Inr \<lparr>rq_query = Some ''lofi'', rq_max_results = Some 3\<rparr>) default_service))) = 1 \<and>
   \<not> str_truthy (rq_query \<lparr>rq_query = Some [], rq_max_results = None\<rparr>) \<and>
   request_count (fst (snd (search ydl_none 0 0
      (Inr \<lparr>rq_query = Some [], rq_max_results = None\<rparr>) default_service))) = 0"
  using request_count_once_when_valid
    [of "\<lparr>url = Some ''http://valid'', format = None\<rparr>" ydl_raises 0 0 default_service "''x''"
        "\<lparr>rq_query = Some ''lofi'', rq_max_results = Some 3\<rparr>" ydl_none]
    request_count_once_when_valid
    [of "\<lparr>url = None, format = None\<rparr>" ydl_raises 0 0 default_service "''x''"
        "\<lparr>rq_query = Some [], rq_max_results = None\<rparr>" ydl_none]
  by (simp add: str_truthy_def default_service_def init_def)

text \<open>Claim C2 as stated fails: the request with an empty URL is answered with code 400
  and the request counter has not moved.\<close>

theorem request_count_validation_counterexample:
  "fst (extract_info ydl_raises 0 0 (Inr \<lparr>url = Some [], format = None\<rparr>) default_service) =
     Failure ''URL is required'' 400 \<and>
   request_count (fst (snd (extract_info ydl_raises 0 0
      (Inr \<lparr>url = Some [], format = None\<rparr>) default_service))) \<noteq> request_count default_service + 1"
  by (simp add: extract_info_def str_truthy_def)

text \<open>
  Claim C9, as amended. The error counter after a request is determined by the response:
  unchanged when the response is a success (a cache hit or a successful miss), unchanged
  when it is the failure with code 400, and one more for every other failure (code 404
  after an extraction that raised or returned nothing, code 500 after a failed search or
  a body that cannot be read). The code is 400 exactly when validation fails.
\<close>

theorem error_count_by_response:
  "error_count (fst (snd (extract_info ydl nc ns request self))) =
     (case fst (extract_info ydl nc ns request self) of
        Success d \<Rightarrow> error_count self
      | Failure msg code \<Rightarrow> if code = 400 then error_count self else error_count self + 1) \<and>
   ((\<exists>msg. fst (extract_info ydl nc ns request self) = Failure msg 400) \<longleftrightarrow>
    (\<exists>body. request = Inr body \<and> \<not> str_truthy (url body))) \<and>
   error_count (fst (snd (search sydl nc ns srequest self))) =
     (case fst (search sydl nc ns srequest self) of
        Success d \<Rightarrow> error_count self
      | Failure msg code \<Rightarrow> if code = 400 then error_count self else error_count self + 1) \<and>
   ((\<exists>msg. fst (search sydl nc ns srequest self) = Failure msg 400) \<longleftrightarrow>
    (\<exists>body. srequest = Inr body \<and> \<not> str_truthy (rq_query body)))"
proof -
  have e: "error_count (fst (snd (extract_info ydl nc ns request self))) =
     (case fst (extract_info ydl nc ns request self) of
        Success d \<Rightarrow> error_count self
      | Failure msg code \<Rightarrow> if code = 400 then error_count self else error_count self + 1) \<and>
   ((\<exists>msg. fst (extract_info ydl nc ns request self) = Failure msg 400) \<longleftrightarrow>
    (\<exists>body. request = Inr body \<and> \<not> str_truthy (url body)))"
  proof (cases request)
    case (Inl e)
    then show ?thesis by (simp add: extract_info_unreadable)
  next
    case (Inr body)
    show ?thesis
    proof (cases "str_truthy (url body)")
      case False
      with Inr show ?thesis by (simp add: extract_info_invalid)
    next
      case True
      show ?thesis
      proof (cases "cache_lookup self nc (extract_cache_key (get (url body) []))")
        case None
        from extract_info_miss[OF True None] Inr True show ?thesis
          by (simp split: prod.splits option.splits)
      next
        case (Some d)
        from extract_info_hit[OF True Some] Inr True show ?thesis by simp
      qed
    qed
  qed
  have s: "error_count (fst (snd (search sydl nc ns srequest self))) =
     (case fst (search sydl nc ns srequest self) of
        Success d \<Rightarrow> error_count self
      | Failure msg code \<Rightarrow> if code = 400 then error_count self else error_count self + 1) \<and>
   ((\<exists>msg. fst (search sydl nc ns srequest self) = Failure msg 400) \<longleftrightarrow>
    (\<exists>body. srequest = Inr body \<and> \<not> str_truthy (rq_query body)))"
  proof (cases srequest)
    case (Inl e)
    then show ?thesis by (simp add: search_unreadable)
  next
    case (Inr body)
    show ?thesis
    proof (cases "str_truthy (rq_query body)")
      case False
      with Inr show ?thesis by (simp add: search_invalid)
    next
      case True
      show ?thesis
      proof (cases "cache_lookup self nc (search_cache_key (get (rq_query body) []) (get (rq_max_results body) 10))")
        case None
        from search_miss[OF True None] Inr True show ?thesis
          by (simp split: prod.splits option.splits)
      next
        case (Some d)
        from search_hit[OF True Some] Inr True show ?thesis by simp
      qed
    qed
  qed
  from e s show ?thesis by simp
qed

text \<open>Claim C9 as stated fails: a validation failure of either handler does not move the
  error counter.\<close>

theorem error_count_validation_counterexample:
  "fst (extract_info ydl_raises 0 0 (Inr \<lparr>url = Some [], format = None\<rparr>) default_service) =
     Failure ''URL is required'' 400 \<and>
   error_count (fst (snd (extract_info ydl_raises 0 0
      (Inr \<lparr>url = Some [], format = None\<rparr>) default_service))) \<noteq> error_count default_service + 1 \<and>
   fst (search ydl_none 0 0 (Inr \<lparr>rq_query = Some [], rq_max_results = None\<rparr>) default_service) =
     Failure ''Query is required'' 400 \<and>
   error_count (fst (snd (search ydl_none 0 0
      (Inr \<lparr>rq_query = Some [], rq_max_results = None\<rparr>) default_service))) \<noteq> error_count default_service + 1"
  by (simp add: extract_info_def search_def str_truthy_def)

text \<open>The theorem where the library raises: one error is counted by each handler.\<close>

theorem error_count_by_response_witness:
  "fst (extract_info ydl_raises 0 0 (Inr \<lparr>url = Some ''http://valid'', format = None\<rparr>)
          default_service) = Failure ''Failed to extract video information'' 404 \<and>
   error_count (fst (snd (extract_info ydl_raises 0 0
      (Inr \<lparr>url = Some ''http://valid'', format = None\<rparr>) default_service))) = 1 \<and>
   fst (search ydl_raises 0 0 (Inr \<lparr>rq_query = Some ''lofi'', rq_max_results = None\<rparr>)
          default_service) = Failure ''Search failed'' 500 \<and>
   error_count (fst (snd (search ydl_raises 0 0
      (Inr \<lparr>rq_query = Some ''lofi'', rq_max_results = None\<rparr>) default_service))) = 1"
proof -
  have r: "fst (extract_info ydl_raises 0 0 (Inr \<lparr>url = Some ''http://valid'', format = None\<rparr>)
          default_service) = Failure ''Failed to extract video information'' 404"
    by (simp add: extract_info_def extract_info_sync_def cache_lookup_def str_truthy_def
        default_service_def init_def ydl_raises_def get_def Let_def)
  have s: "fst (search ydl_raises 0 0 (Inr \<lparr>rq_query = Some ''lofi'', rq_max_results = None\<rparr>)
          default_service) = Failure ''Search failed'' 500"
    by (simp add: search_def search_sync_def cache_lookup_def str_truthy_def
        default_service_def init_def ydl_raises_def get_def Let_def)
  from error_count_by_response
    [of ydl_raises 0 0 "Inr \<lparr>url = Some ''http://valid'', format = None\<rparr>" default_service
        ydl_raises "Inr \<lparr>rq_query = Some ''lofi'', rq_max_results = None\<rparr>"]
  show ?thesis unfolding r s by (simp add: default_service_def init_def)
qed

section \<open>A failed extraction\<close>

text \<open>
  Claim C8. When the URL is non-empty, the cache check misses, and the call of the
  library raises or returns an empty result (\<^verbatim>\<open>None\<close> or an empty dictionary), then
  \<^verbatim>\<open>extract_info\<close> answers with the failure of code 404, the error counter is one
  more than before, and the cache dictionary is the one before the request: a key that
  was absent is still absent.
\<close>

theorem extract_failure_not_found:
  assumes "u \<noteq> []"
    and "cache_lookup self nc (extract_cache_key u) = None"
    and "ydl (if str_truthy fo then get fo [] else ytdl_format self, u) = Inl e \<or>
         ydl (if str_truthy fo then get fo [] else ytdl_format self, u) = Inr None \<or>
         (\<exists>d. ydl (if str_truthy fo then get fo [] else ytdl_format self, u) = Inr (Some d) \<and>
              dict_empty d)"
  shows "fst (extract_info ydl nc ns (Inr \<lparr>url = Some u, format = fo\<rparr>) self) =
           Failure ''Failed to extract video information'' 404 \<and>
         error_count (fst (snd (extract_info ydl nc ns (Inr \<lparr>url = Some u, format = fo\<rparr>) self))) =
           error_count self + 1 \<and>
         cache (fst (snd (extract_info ydl nc ns (Inr \<lparr>url = Some u, format = fo\<rparr>) self))) =
           cache self"
proof -
  let ?body = "\<lparr>url = Some u, format = fo\<rparr>"
  have v: "str_truthy (url ?body)" using assms(1) by (simp add: str_truthy_def)
  have g: "get (url ?body) [] = u" by (simp add: get_def)
  have "fst (extract_info_sync ydl (self\<lparr>request_count := request_count self + 1\<rparr>) u fo) = None"
    using assms(3) by (auto simp: extract_info_sync_def Let_def)
  then obtain calls where
    "extract_info_sync ydl (self\<lparr>request_count := request_count self + 1\<rparr>) u fo = (None, calls)"
    by (cases "extract_info_sync ydl (self\<lparr>request_count := request_count self + 1\<rparr>) u fo") auto
  with extract_info_miss[OF v, of self nc ydl ns] assms(2) g show ?thesis by simp
qed

text \<open>The theorem where the library raises, on the service as started.\<close>

theorem extract_failure_not_found_witness:
  "''http://gone'' \<noteq> [] \<and>
   cache_lookup default_service 0 (extract_cache_key ''http://gone'') = None \<and>
   ydl_raises (if str_truthy None then get None [] else ytdl_format default_service, ''http://gone'') =
     (Inl ''network error'' :: string + raw_info option) \<and>
   fst (extract_info ydl_raises 0 0 (Inr \<lparr>url = Some ''http://gone'', format = None\<rparr>)
          default_service) = Failure ''Failed to extract video information'' 404 \<and>
   error_count (fst (snd (extract_info ydl_raises 0 0
      (Inr \<lparr>url = Some ''http://gone'', format = None\<rparr>) default_service))) = 1 \<and>
   cache (fst (snd (extract_info ydl_raises 0 0
      (Inr \<lparr>url = Some ''http://gone'', format = None\<rparr>) default_service)))
     (extract_cache_key ''http://gone'') = None"
proof -
  have a: "''http://gone'' \<noteq> []" by simp
  have b: "cache_lookup default_service 0 (extract_cache_key ''http://gone'') = None"
    by (simp add: cache_lookup_def default_service_def init_def)
  have c: "ydl_raises (if str_truthy None then get None [] else ytdl_format default_service,
             ''http://gone'') = (Inl ''network error'' :: string + raw_info option)"
    by (simp add: ydl_raises_def)
  have "fst (extract_info ydl_raises 0 0 (Inr \<lparr>url = Some ''http://gone'', format = None\<rparr>)
          default_service) = Failure ''Failed to extract video information'' 404 \<and>
        error_count (fst (snd (extract_info ydl_raises 0 0
          (Inr \<lparr>url = Some ''http://gone'', format = None\<rparr>) default_service))) =
          error_count default_service + 1 \<and>
        cache (fst (snd (extract_info ydl_raises 0 0
          (Inr \<lparr>url = Some ''http://gone'', format = None\<rparr>) default_service))) =
          cache default_service"
    by (rule extract_failure_not_found[where e = "''network error''"]) (use a b c in blast)+
  with a b c show ?thesis
    by (simp add: default_service_def init_def)
qed

section \<open>The cache\<close>

text \<open>A check after a store finds the stored data exactly when the age is below the time
  to live.\<close>

lemma cache_lookup_store_same:
  "cache_lookup (cache_store self k d t) now k = (if now - t < cache_ttl self then Some d else None)"
  by (simp add: cache_lookup_def cache_store_def)

section \<open>The target of a search\<close>

text \<open>
  Claim C3, as amended. On every cache miss of \<^verbatim>\<open>search\<close> (a non-empty query whose
  key is absent from the cache or expired), the library is called exactly once, and the
  target of the call is the word \<^verbatim>\<open>ytsearch\<close> followed by the limit in decimal, a
  colon and the query; the limit is 10 when the request gives none.
\<close>

theorem search_miss_query:
  assumes "q \<noteq> []"
    and "cache_lookup self now_check (search_cache_key q (get m 10)) = None"
  shows "snd (snd (search ydl now_check now_store (Inr \<lparr>rq_query = Some q, rq_max_results = m\<rparr>) self)) =
           [(ytdl_format self, ''ytsearch'' @ str_int (get m 10) @ '':'' @ q)]"
proof -
  let ?body = "\<lparr>rq_query = Some q, rq_max_results = m\<rparr>"
  have v: "str_truthy (rq_query ?body)" using assms(1) by (simp add: str_truthy_def)
  have g: "get (rq_query ?body) [] = q" by (simp add: get_def)
  from search_miss[OF v, of self now_check ydl now_store] assms(2) g
  have "snd (snd (search ydl now_check now_store (Inr ?body) self)) =
        snd (search_sync ydl (self\<lparr>request_count := request_count self + 1\<rparr>) q (get m 10))"
    by (simp split: prod.splits option.splits)
  then show ?thesis by (simp add: search_sync_calls search_query_def)
qed

text \<open>The theorem for the query \<^verbatim>\<open>lofi\<close> with limit 3 on the service as started.\<close>

theorem search_miss_query_witness:
  "''lofi'' \<noteq> [] \<and>
   cache_lookup default_service 0 (search_cache_key ''lofi'' (get (Some 3) 10)) = None \<and>
   snd (snd (search ydl_none 0 0 (Inr \<lparr>rq_query = Some ''lofi'', rq_max_results = Some 3\<rparr>)
               default_service)) = [(''bestaudio/best'', ''ytsearch3:lofi'')]"
proof -
  have a: "''lofi'' \<noteq> []" by simp
  have b: "cache_lookup default_service 0 (search_cache_key ''lofi'' (get (Some 3) 10)) = None"
    by (simp add: cache_lookup_def default_service_def init_def)
  from search_miss_query[OF a b, of ydl_none 0] a b show ?thesis
    by (simp add: default_service_def init_def get_def str_int_def str_nat.simps digit_char_def)
qed

text \<open>Claim C3 as stated fails: the target for \<^verbatim>\<open>lofi\<close> with limit 3 is
  \<^verbatim>\<open>ytsearch3:lofi\<close>, not \<^verbatim>\<open>search3:lofi\<close>.\<close>

theorem search_query_counterexample:
  "snd (snd (search ydl_none 0 0 (Inr \<lparr>rq_query = Some ''lofi'', rq_max_results = Some 3\<rparr>)
               default_service)) = [(''bestaudio/best'', ''ytsearch3:lofi'')] \<and>
   snd (snd (search ydl_none 0 0 (Inr \<lparr>rq_query = Some ''lofi'', rq_max_results = Some 3\<rparr>)
               default_service)) \<noteq> [(''bestaudio/best'', ''search'' @ ''3'' @ '':'' @ ''lofi'')]"
  by (simp add: search_def search_sync_def search_query_def search_cache_key_def cache_lookup_def
      str_truthy_def default_service_def init_def ydl_none_def get_def Let_def
      str_int_def str_nat.simps digit_char_def)

section \<open>What a request does to the cache\<close>

text \<open>The two outcomes of \<^verbatim>\<open>_extract_info_sync\<close>.\<close>

lemma extract_info_sync_fails:
  assumes "ydl (if str_truthy fo then get fo [] else ytdl_format self, u) = Inl e \<or>
           ydl (if str_truthy fo then get fo [] else ytdl_format self, u) = Inr None \<or>
           (\<exists>d. ydl (if str_truthy fo then get fo [] else ytdl_format self, u) = Inr (Some d) \<and>
                dict_empty d)"
  shows "extract_info_sync ydl self u fo =
           (None, [(if str_truthy fo then get fo [] else ytdl_format self, u)])"
  using assms by (auto simp: extract_info_sync_def Let_def)

lemma extract_info_sync_succeeds:
  assumes "ydl (if str_truthy fo then get fo [] else ytdl_format self, u) = Inr (Some info)"
    and "\<not> dict_empty info"
  shows "extract_info_sync ydl self u fo =
           (Some (clean_info_of u info), [(if str_truthy fo then get fo [] else ytdl_format self, u)])"
  using assms by (simp add: extract_info_sync_def Let_def)

text \<open>After a request the cache dictionary is the one before, or the request was a cache
  miss whose call of the library succeeded and the dictionary differs at the key of the
  request only, where it holds the new data and the reading of the clock.\<close>

lemma extract_info_cache_cases:
  "cache (fst (snd (extract_info ydl nc ns request self))) = cache self \<or>
   (\<exists>body info. request = Inr body \<and> str_truthy (url body) \<and>
      cache_lookup self nc (extract_cache_key (get (url body) [])) = None \<and>
      fst (extract_info ydl nc ns request self) = Success (VideoData info) \<and>
      snd (snd (extract_info ydl nc ns request self)) \<noteq> [] \<and>
      cache (fst (snd (extract_info ydl nc ns request self))) =
        (cache self)(extract_cache_key (get (url body) []) \<mapsto>
           \<lparr>data = VideoData info, timestamp = ns\<rparr>))"
proof (cases request)
  case (Inl e)
  then show ?thesis by (simp add: extract_info_unreadable)
next
  case (Inr body)
  show ?thesis
  proof (cases "str_truthy (url body)")
    case False
    with Inr show ?thesis by (simp add: extract_info_invalid)
  next
    case True
    show ?thesis
    proof (cases "cache_lookup self nc (extract_cache_key (get (url body) []))")
      case (Some d)
      from extract_info_hit[OF True Some] Inr show ?thesis by simp
    next
      case None
      obtain r calls where sy:
        "extract_info_sync ydl (self\<lparr>request_count := request_count self + 1\<rparr>)
           (get (url body) []) (format body) = (r, calls)"
        by (cases "extract_info_sync ydl (self\<lparr>request_count := request_count self + 1\<rparr>)
           (get (url body) []) (format body)") auto
      from extract_info_sync_calls[of ydl "self\<lparr>request_count := request_count self + 1\<rparr>"
          "get (url body) []" "format body"] sy
      have ne: "calls \<noteq> []" by auto
      show ?thesis
      proof (cases r)
        case None
        with extract_info_miss[OF True \<open>cache_lookup self nc _ = None\<close>, of ydl ns] sy Inr
        show ?thesis by simp
      next
        case (Some info)
        with extract_info_miss[OF True \<open>cache_lookup self nc _ = None\<close>, of ydl ns] sy Inr True ne
          \<open>cache_lookup self nc _ = None\<close>
        show ?thesis by (simp add: cache_store_def)
      qed
    qed
  qed
qed

lemma search_cache_cases:
  "cache (fst (snd (search ydl nc ns request self))) = cache self \<or>
   (\<exists>body results. request = Inr body \<and> str_truthy (rq_query body) \<and>
      cache_lookup self nc
        (search_cache_key (get (rq_query body) []) (get (rq_max_results body) 10)) = None \<and>
      fst (search ydl nc ns request self) = Success (SearchData results) \<and>
      snd (snd (search ydl nc ns request self)) \<noteq> [] \<and>
      cache (fst (snd (search ydl nc ns request self))) =
        (cache self)(search_cache_key (get (rq_query body) []) (get (rq_max_results body) 10) \<mapsto>
           \<lparr>data = SearchData results, timestamp = ns\<rparr>))"
proof (cases request)
  case (Inl e)
  then show ?thesis by (simp add: search_unreadable)
next
  case (Inr body)
  show ?thesis
  proof (cases "str_truthy (rq_query body)")
    case False
    with Inr show ?thesis by (simp add: search_invalid)
  next
    case True
    let ?k = "search_cache_key (get (rq_query body) []) (get (rq_max_results body) 10)"
    show ?thesis
    proof (cases "cache_lookup self nc ?k")
      case (Some d)
      from search_hit[OF True Some] Inr show ?thesis by simp
    next
      case None
      obtain r calls where sy:
        "search_sync ydl (self\<lparr>request_count := request_count self + 1\<rparr>)
           (get (rq_query body) []) (get (rq_max_results body) 10) = (r, calls)"
        by (cases "search_sync ydl (self\<lparr>request_count := request_count self + 1\<rparr>)
           (get (rq_query body) []) (get (rq_max_results body) 10)") auto
      from search_sync_calls[of ydl "self\<lparr>request_count := request_count self + 1\<rparr>"
          "get (rq_query body) []" "get (rq_max_results body) 10"] sy
      have ne: "calls \<noteq> []" by auto
      show ?thesis
      proof (cases r)
        case None
        with search_miss[OF True \<open>cache_lookup self nc ?k = None\<close>, of ydl ns] sy Inr
        show ?thesis by simp
      next
        case (Some results)
        with search_miss[OF True \<open>cache_lookup self nc ?k = None\<close>, of ydl ns] sy Inr True ne
          \<open>cache_lookup self nc ?k = None\<close>
        show ?thesis by (simp add: cache_store_def)
      qed
    qed
  qed
qed

text \<open>
  Claim C10. A request that makes no call of the library (validation failure, unreadable
  body, cache hit) and a request answered with a failure leave the cache dictionary as it
  was; any request leaves every key other than its own as it was. In particular, when the
  entry of a URL has reached the time to live and the library raises or returns
  \<^verbatim>\<open>None\<close>, the library was called and the entry is still in the dictionary with its
  data and its timestamp. Entries leave the dictionary only through
  \<^verbatim>\<open>cleanup_cache\<close>, which drops exactly the entries older than the time to live,
  and through \<^verbatim>\<open>clear_cache\<close>, which drops them all.
\<close>

theorem cache_entries_untouched:
  "(snd (snd (extract_info ydl nc ns request self)) = [] \<longrightarrow>
      cache (fst (snd (extract_info ydl nc ns request self))) = cache self) \<and>
   ((\<exists>msg code. fst (extract_info ydl nc ns request self) = Failure msg code) \<longrightarrow>
      cache (fst (snd (extract_info ydl nc ns request self))) = cache self) \<and>
   (k \<noteq> extract_cache_key (get (url body) []) \<longrightarrow>
      cache (fst (snd (extract_info ydl nc ns (Inr body) self))) k = cache self k) \<and>
   (snd (snd (search sydl nc ns srequest self)) = [] \<longrightarrow>
      cache (fst (snd (search sydl nc ns srequest self))) = cache self) \<and>
   ((\<exists>msg code. fst (search sydl nc ns srequest self) = Failure msg code) \<longrightarrow>
      cache (fst (snd (search sydl nc ns srequest self))) = cache self) \<and>
   (k \<noteq> search_cache_key (get (rq_query sbody) []) (get (rq_max_results sbody) 10) \<longrightarrow>
      cache (fst (snd (search sydl nc ns (Inr sbody) self))) k = cache self k) \<and>
   (u \<noteq> [] \<and> cache self (extract_cache_key u) = Some entry \<and>
    cache_ttl self \<le> nc - timestamp entry \<and>
    (ydl (if str_truthy fo then get fo [] else ytdl_format self, u) = Inl e \<or>
     ydl (if str_truthy fo then get fo [] else ytdl_format self, u) = Inr None) \<longrightarrow>
      snd (snd (extract_info ydl nc ns (Inr \<lparr>url = Some u, format = fo\<rparr>) self)) \<noteq> [] \<and>
      cache (fst (snd (extract_info ydl nc ns (Inr \<lparr>url = Some u, format = fo\<rparr>) self)))
        (extract_cache_key u) = Some entry) \<and>
   cache (cleanup_cache now self) k =
     (case cache self k of
        None \<Rightarrow> None
      | Some en \<Rightarrow> if cache_ttl self < now - timestamp en then None else Some en) \<and>
   cache (clear_cache self) k = None"
proof (intro conjI impI)
  assume "snd (snd (extract_info ydl nc ns request self)) = []"
  with extract_info_cache_cases[of ydl nc ns request self]
  show "cache (fst (snd (extract_info ydl nc ns request self))) = cache self" by blast
next
  assume "\<exists>msg code. fst (extract_info ydl nc ns request self) = Failure msg code"
  with extract_info_cache_cases[of ydl nc ns request self]
  show "cache (fst (snd (extract_info ydl nc ns request self))) = cache self" by auto
next
  assume "k \<noteq> extract_cache_key (get (url body) [])"
  with extract_info_cache_cases[of ydl nc ns "Inr body" self]
  show "cache (fst (snd (extract_info ydl nc ns (Inr body) self))) k = cache self k" by auto
next
  assume "snd (snd (search sydl nc ns srequest self)) = []"
  with search_cache_cases[of sydl nc ns srequest self]
  show "cache (fst (snd (search sydl nc ns srequest self))) = cache self" by blast
next
  assume "\<exists>msg code. fst (search sydl nc ns srequest self) = Failure msg code"
  with search_cache_cases[of sydl nc ns srequest self]
  show "cache (fst (snd (search sydl nc ns srequest self))) = cache self" by auto
next
  assume "k \<noteq> search_cache_key (get (rq_query sbody) []) (get (rq_max_results sbody) 10)"
  with search_cache_cases[of sydl nc ns "Inr sbody" self]
  show "cache (fst (snd (search sydl nc ns (Inr sbody) self))) k = cache self k" by auto
next
  assume a: "u \<noteq> [] \<and> cache self (extract_cache_key u) = Some entry \<and>
    cache_ttl self \<le> nc - timestamp entry \<and>
    (ydl (if str_truthy fo then get fo [] else ytdl_format self, u) = Inl e \<or>
     ydl (if str_truthy fo then get fo [] else ytdl_format self, u) = Inr None)"
  let ?body = "\<lparr>url = Some u, format = fo\<rparr>"
  have v: "str_truthy (url ?body)" using a by (simp add: str_truthy_def)
  have g: "get (url ?body) [] = u" by (simp add: get_def)
  have miss: "cache_lookup self nc (extract_cache_key (get (url ?body) [])) = None"
    using a by (simp add: cache_lookup_def get_def)
  have sy: "extract_info_sync ydl (self\<lparr>request_count := request_count self + 1\<rparr>) u fo =
              (None, [(if str_truthy fo then get fo [] else ytdl_format self, u)])"
    using a by (auto simp: extract_info_sync_def Let_def)
  from extract_info_miss[OF v miss, of ydl ns] sy g a
  show "snd (snd (extract_info ydl nc ns (Inr ?body) self)) \<noteq> []"
    and "cache (fst (snd (extract_info ydl nc ns (Inr ?body) self))) (extract_cache_key u) = Some entry"
    by simp_all
next
  show "cache (cleanup_cache now self) k =
     (case cache self k of
        None \<Rightarrow> None
      | Some en \<Rightarrow> if cache_ttl self < now - timestamp en then None else Some en)"
    by (simp add: cleanup_cache_def)
next
  show "cache (clear_cache self) k = None" by (simp add: clear_cache_def)
qed

text \<open>The theorem on the entry stored at time 0, one microsecond after the 24 hours,
  where the library raises.\<close>

theorem cache_entries_untouched_witness:
  "''http://old'' \<noteq> [] \<and>
   cache stale_service (extract_cache_key ''http://old'') =
     Some \<lparr>data = old_video, timestamp = 0\<rparr> \<and>
   cache_ttl stale_service \<le> 86400000001 - timestamp \<lparr>data = old_video, timestamp = 0\<rparr> \<and>
   ydl_raises (if str_truthy None then get None [] else ytdl_format stale_service, ''http://old'') =
     (Inl ''network error'' :: string + raw_info option) \<and>
   snd (snd (extract_info ydl_raises 86400000001 86400000002
     (Inr \<lparr>url = Some ''http://old'', format = None\<rparr>) stale_service)) \<noteq> [] \<and>
   cache (fst (snd (extract_info ydl_raises 86400000001 86400000002
     (Inr \<lparr>url = Some ''http://old'', format = None\<rparr>) stale_service)))
     (extract_cache_key ''http://old'') = Some \<lparr>data = old_video, timestamp = 0\<rparr>"
proof -
  have a: "''http://old'' \<noteq> []" by simp
  have b: "cache stale_service (extract_cache_key ''http://old'') =
     Some \<lparr>data = old_video, timestamp = 0\<rparr>"
    by (simp add: stale_service_def cache_store_def)
  have c: "cache_ttl stale_service \<le> 86400000001 - timestamp \<lparr>data = old_video, timestamp = 0\<rparr>"
    by (simp add: stale_service_def default_service_def init_def)
  have d: "ydl_raises (if str_truthy None then get None [] else ytdl_format stale_service, ''http://old'') =
     (Inl ''network error'' :: string + raw_info option)"
    by (simp add: ydl_raises_def)
  from cache_entries_untouched
    [where u = "''http://old''" and self = stale_service
       and entry = "\<lparr>data = old_video, timestamp = 0\<rparr>" and nc = 86400000001
       and ydl = ydl_raises and fo = None and e = "''network error''" and ns = 86400000002]
    a b c d
  show ?thesis by blast
qed

section \<open>Time to live and cache key\<close>

text \<open>After a successful extraction the cache holds the returned data under the key of
  the URL, stamped with the reading of the clock at the store when the library was
  called.\<close>

lemma extract_info_success_cached:
  assumes "u \<noteq> []"
    and "extract_info ydl nc ns (Inr \<lparr>url = Some u, format = fo\<rparr>) self = (Success d, self1, calls)"
  shows "cache_ttl self1 = cache_ttl self \<and>
         (\<exists>entry. cache self1 (extract_cache_key u) = Some entry \<and> data entry = d \<and>
            (calls \<noteq> [] \<longrightarrow> timestamp entry = ns))"
proof -
  let ?body = "\<lparr>url = Some u, format = fo\<rparr>"
  have v: "str_truthy (url ?body)" using assms(1) by (simp add: str_truthy_def)
  have g: "get (url ?body) [] = u" by (simp add: get_def)
  show ?thesis
  proof (cases "cache_lookup self nc (extract_cache_key u)")
    case (Some d')
    with extract_info_hit[OF v, of self nc d' ydl ns] g assms(2)
    have "d' = d" "self1 = self\<lparr>request_count := request_count self + 1\<rparr>" "calls = []"
      by simp_all
    moreover from Some obtain entry where "cache self (extract_cache_key u) = Some entry"
      "data entry = d'"
      by (auto simp: cache_lookup_def split: option.splits if_splits)
    ultimately show ?thesis by simp
  next
    case None
    with extract_info_miss[OF v, of self nc ydl ns] g assms(2)
    show ?thesis
      by (auto simp: cache_store_def split: prod.splits option.splits)
  qed
qed

text \<open>
  Claim C1, as amended. An entry older than the time to live is not found by the cache
  check, whether or not \<^verbatim>\<open>cleanup_cache\<close> has run, and \<^verbatim>\<open>extract_info\<close> then
  calls the library. When the time to live is positive, a check at the reading of the
  clock of the store (more generally at any age below the time to live) finds the stored
  data, and a second \<^verbatim>\<open>extract_info\<close> for the URL at that reading returns the data
  of the first without calling the library.
\<close>

theorem cache_ttl_correct:
  "(cache self k = Some entry \<and> cache_ttl self < now - timestamp entry \<longrightarrow>
      cache_lookup self now k = None) \<and>
   (0 < cache_ttl self \<longrightarrow> cache_lookup (cache_store self k d now) now k = Some d) \<and>
   (later - now < cache_ttl self \<longrightarrow> cache_lookup (cache_store self k d now) later k = Some d) \<and>
   (u \<noteq> [] \<and> cache self (extract_cache_key u) = Some entry \<and>
    cache_ttl self < nc - timestamp entry \<longrightarrow>
      snd (snd (extract_info ydl nc ns (Inr \<lparr>url = Some u, format = fo\<rparr>) self)) =
        [(if str_truthy fo then get fo [] else ytdl_format self, u)]) \<and>
   (0 < cache_ttl self \<and> u \<noteq> [] \<and>
    extract_info ydl nc ns (Inr \<lparr>url = Some u, format = fo\<rparr>) self = (Success v, self1, [call]) \<longrightarrow>
      extract_info ydl2 ns ns2 (Inr \<lparr>url = Some u, format = fo2\<rparr>) self1 =
        (Success v, self1\<lparr>request_count := request_count self1 + 1\<rparr>, []))"
proof (intro conjI impI)
  assume "cache self k = Some entry \<and> cache_ttl self < now - timestamp entry"
  then show "cache_lookup self now k = None" by (simp add: cache_lookup_def)
next
  assume "0 < cache_ttl self"
  then show "cache_lookup (cache_store self k d now) now k = Some d"
    by (simp add: cache_lookup_store_same)
next
  assume "later - now < cache_ttl self"
  then show "cache_lookup (cache_store self k d now) later k = Some d"
    by (simp add: cache_lookup_store_same)
next
  assume a: "u \<noteq> [] \<and> cache self (extract_cache_key u) = Some entry \<and>
    cache_ttl self < nc - timestamp entry"
  let ?body = "\<lparr>url = Some u, format = fo\<rparr>"
  have v: "str_truthy (url ?body)" using a by (simp add: str_truthy_def)
  have g: "get (url ?body) [] = u" by (simp add: get_def)
  have miss: "cache_lookup self nc (extract_cache_key (get (url ?body) [])) = None"
    using a by (simp add: cache_lookup_def get_def)
  from extract_info_miss[OF v miss, of ydl ns] g
  have "snd (snd (extract_info ydl nc ns (Inr ?body) self)) =
        snd (extract_info_sync ydl (self\<lparr>request_count := request_count self + 1\<rparr>) u fo)"
    by (simp split: prod.splits option.splits)
  then show "snd (snd (extract_info ydl nc ns (Inr ?body) self)) =
        [(if str_truthy fo then get fo [] else ytdl_format self, u)]"
    by (simp add: extract_info_sync_calls)
next
  assume a: "0 < cache_ttl self \<and> u \<noteq> [] \<and>
    extract_info ydl nc ns (Inr \<lparr>url = Some u, format = fo\<rparr>) self = (Success v, self1, [call])"
  then have u: "u \<noteq> []" and
    r: "extract_info ydl nc ns (Inr \<lparr>url = Some u, format = fo\<rparr>) self = (Success v, self1, [call])"
    by simp_all
  from extract_info_success_cached[OF u r] obtain entry where
    ttl: "cache_ttl self1 = cache_ttl self" and
    en: "cache self1 (extract_cache_key u) = Some entry" "data entry = v" "timestamp entry = ns"
    by auto
  let ?body = "\<lparr>url = Some u, format = fo2\<rparr>"
  have v: "str_truthy (url ?body)" using u by (simp add: str_truthy_def)
  have hit: "cache_lookup self1 ns (extract_cache_key (get (url ?body) [])) = Some v"
    using en ttl a by (simp add: cache_lookup_def get_def)
  from extract_info_hit[OF v hit]
  show "extract_info ydl2 ns ns2 (Inr ?body) self1 =
        (Success v, self1\<lparr>request_count := request_count self1 + 1\<rparr>, [])" .
qed

text \<open>
  Claim C5. The cache key of an extraction is computed from the URL alone. After any
  successful extraction of a URL, under any format override \<open>f1\<close>, the cache holds the
  returned data under that key, and a later request for the URL under any other override
  \<open>f2\<close>, made while the entry is younger than the time to live, returns the same data
  and makes no call of the library.
\<close>

theorem extract_cache_key_ignores_format:
  assumes "u \<noteq> []"
    and "extract_info ydl1 nc1 ns1 (Inr \<lparr>url = Some u, format = f1\<rparr>) self = (Success d, self1, calls1)"
  shows "\<exists>entry. cache self1 (extract_cache_key u) = Some entry \<and> data entry = d \<and>
           (nc2 - timestamp entry < cache_ttl self1 \<longrightarrow>
              extract_info ydl2 nc2 ns2 (Inr \<lparr>url = Some u, format = f2\<rparr>) self1 =
                (Success d, self1\<lparr>request_count := request_count self1 + 1\<rparr>, []))"
proof -
  from extract_info_success_cached[OF assms] obtain entry where
    en: "cache self1 (extract_cache_key u) = Some entry" "data entry = d"
    by auto
  let ?body = "\<lparr>url = Some u, format = f2\<rparr>"
  have v: "str_truthy (url ?body)" using assms(1) by (simp add: str_truthy_def)
  have "extract_info ydl2 nc2 ns2 (Inr ?body) self1 =
          (Success d, self1\<lparr>request_count := request_count self1 + 1\<rparr>, [])"
    if "nc2 - timestamp entry < cache_ttl self1"
  proof -
    have hit: "cache_lookup self1 nc2 (extract_cache_key (get (url ?body) [])) = Some d"
      using en that by (simp add: cache_lookup_def get_def)
    from extract_info_hit[OF v hit] show ?thesis .
  qed
  with en show ?thesis by blast
qed

text \<open>A first extraction on the service as started.\<close>

lemma first_extraction:
  "extract_info (ydl_returns (titled_info ''abc123'' ''Song'')) 7 7
     (Inr \<lparr>url = Some ''http://valid'', format = None\<rparr>) default_service =
   (Success song_video, song_service, [(''bestaudio/best'', ''http://valid'')])"
  by (simp add: extract_info_def extract_info_sync_def cache_lookup_def str_truthy_def get_def
      Let_def ydl_returns_def dict_empty_def titled_info_def empty_dict_def
      song_video_def song_service_def default_service_def init_def)

text \<open>The theorem after that extraction: a request with the override
  \<^verbatim>\<open>worstaudio\<close> one microsecond later is served from the cache.\<close>

theorem extract_cache_key_ignores_format_witness:
  "''http://valid'' \<noteq> [] \<and>
   extract_info (ydl_returns (titled_info ''abc123'' ''Song'')) 7 7
     (Inr \<lparr>url = Some ''http://valid'', format = None\<rparr>) default_service =
   (Success song_video, song_service, [(''bestaudio/best'', ''http://valid'')]) \<and>
   extract_info ydl_raises 8 9
     (Inr \<lparr>url = Some ''http://valid'', format = Some ''worstaudio''\<rparr>) song_service =
   (Success song_video, song_service\<lparr>request_count := request_count song_service + 1\<rparr>, [])"
proof -
  have a: "''http://valid'' \<noteq> []" by simp
  from extract_cache_key_ignores_format[OF a first_extraction, of 8 ydl_raises 9 "Some ''worstaudio''"]
  obtain entry where
    en: "cache song_service (extract_cache_key ''http://valid'') = Some entry" and
    hit: "8 - timestamp entry < cache_ttl song_service \<longrightarrow>
          extract_info ydl_raises 8 9
            (Inr \<lparr>url = Some ''http://valid'', format = Some ''worstaudio''\<rparr>) song_service =
          (Success song_video, song_service\<lparr>request_count := request_count song_service + 1\<rparr>, [])"
    by blast
  from en have "timestamp entry = 7"
    by (auto simp: song_service_def cache_store_def)
  moreover have "cache_ttl song_service = 86400000000"
    by (simp add: song_service_def cache_store_def default_service_def init_def)
  ultimately have "8 - timestamp entry < cache_ttl song_service" by simp
  with hit a first_extraction show ?thesis by blast
qed

text \<open>Claim C1 as stated fails when the time to live is zero: the check at the very
  reading of the store finds nothing, and a second request calls the library again.\<close>

theorem cache_ttl_zero_counterexample:
  "cache_lookup (cache_store zero_ttl_service (extract_cache_key ''http://valid'') song_video 5) 5
     (extract_cache_key ''http://valid'') = None \<and>
   snd (snd (extract_info (ydl_returns (titled_info ''abc123'' ''Song'')) 5 5
     (Inr \<lparr>url = Some ''http://valid'', format = None\<rparr>)
     (fst (snd (extract_info (ydl_returns (titled_info ''abc123'' ''Song'')) 5 5
        (Inr \<lparr>url = Some ''http://valid'', format = None\<rparr>) zero_ttl_service))))) =
   [(''bestaudio/best'', ''http://valid'')]"
  by (simp add: extract_info_def extract_info_sync_def cache_lookup_def cache_store_def
      str_truthy_def get_def Let_def ydl_returns_def dict_empty_def titled_info_def empty_dict_def
      zero_ttl_service_def init_def)

text \<open>The theorem on the entry stored at time 0, one microsecond after the 24 hours, and
  on a store into the service as started.\<close>

theorem cache_ttl_correct_witness:
  "cache stale_service (extract_cache_key ''http://old'') =
     Some \<lparr>data = old_video, timestamp = 0\<rparr> \<and>
   cache_ttl stale_service < 86400000001 - timestamp \<lparr>data = old_video, timestamp = 0\<rparr> \<and>
   cache_lookup stale_service 86400000001 (extract_cache_key ''http://old'') = None \<and>
   0 < cache_ttl default_service \<and>
   cache_lookup (cache_store default_service (extract_cache_key ''http://valid'') song_video 7) 7
     (extract_cache_key ''http://valid'') = Some song_video \<and>
   snd (snd (extract_info ydl_raises 86400000001 86400000002
     (Inr \<lparr>url = Some ''http://old'', format = None\<rparr>) stale_service)) =
     [(''bestaudio/best'', ''http://old'')]"
proof -
  have a: "cache stale_service (extract_cache_key ''http://old'') =
     Some \<lparr>data = old_video, timestamp = 0\<rparr>"
    by (simp add: stale_service_def cache_store_def)
  have b: "cache_ttl stale_service < 86400000001 - timestamp \<lparr>data = old_video, timestamp = 0\<rparr>"
    by (simp add: stale_service_def default_service_def init_def)
  have c: "0 < cache_ttl default_service" by (simp add: default_service_def init_def)
  have f: "ytdl_format stale_service = ''bestaudio/best''"
    by (simp add: stale_service_def default_service_def init_def)
  from cache_ttl_correct
    [where self = stale_service and k = "extract_cache_key ''http://old''"
       and entry = "\<lparr>data = old_video, timestamp = 0\<rparr>" and now = 86400000001
       and u = "''http://old''" and nc = 86400000001 and ns = 86400000002 and ydl = ydl_raises
       and fo = None] a b f
  have 1: "cache_lookup stale_service 86400000001 (extract_cache_key ''http://old'') = None"
    and 2: "snd (snd (extract_info ydl_raises 86400000001 86400000002
        (Inr \<lparr>url = Some ''http://old'', format = None\<rparr>) stale_service)) =
        [(''bestaudio/best'', ''http://old'')]"
    by (simp_all add: str_truthy_def)
  from cache_ttl_correct
    [where self = default_service and k = "extract_cache_key ''http://valid''"
       and d = song_video and now = 7] c
  have 3: "cache_lookup (cache_store default_service (extract_cache_key ''http://valid'') song_video 7) 7
     (extract_cache_key ''http://valid'') = Some song_video"
    by blast
  from a b c 1 2 3 show ?thesis by blast
qed

section \<open>The results of a search\<close>

text \<open>The loop keeps, in order, the entries that are true.\<close>

lemma collect_videos_map_filter:
  "collect_videos es =
     map video_info_of (List.map_filter (\<lambda>e. if info_truthy e then e else None) es)"
  by (induction es) (auto simp: List.map_filter_simps info_truthy_def split: option.splits)

lemma length_collect_videos: "length (collect_videos es) \<le> length es"
  by (induction es) (auto split: option.splits)

lemma slice_to_nonneg: "0 \<le> n \<Longrightarrow> slice_to xs n = take (nat n) xs"
  by (simp add: slice_to_def)

text \<open>
  Claim C7, as amended. For a limit that is not negative: when the result of the library
  has entries, \<^verbatim>\<open>_search_sync\<close> returns the videos of the first \<open>limit\<close> entries
  that are neither \<^verbatim>\<open>None\<close> nor an empty dictionary, in the order of the library, so
  at most \<open>limit\<close> videos, and \<^verbatim>\<open>total_count\<close> is their number. Whatever the limit,
  a result that is \<^verbatim>\<open>None\<close> or has no entries gives the result with no video and
  \<^verbatim>\<open>total_count\<close> 0, which \<^verbatim>\<open>search\<close> returns as a success.
\<close>

theorem search_sync_videos:
  "(0 \<le> max_results \<and>
    ydl (ytdl_format self, search_query q max_results) = Inr (Some res) \<and>
    rs_entries res = Some entries \<longrightarrow>
      (\<exists>r. fst (search_sync ydl self q max_results) = Some r \<and>
           videos r = map video_info_of
             (List.map_filter (\<lambda>e. if info_truthy e then e else None)
                (take (nat max_results) entries)) \<and>
           int (length (videos r)) \<le> max_results \<and>
           total_count r = length (videos r) \<and>
           query r = q)) \<and>
   (ydl (ytdl_format self, search_query q max_results) = Inr None \<or>
    ydl (ytdl_format self, search_query q max_results) = Inr (Some res) \<and> rs_entries res = None \<longrightarrow>
      fst (search_sync ydl self q max_results) = Some \<lparr>videos = [], total_count = 0, query = q\<rparr>) \<and>
   (q \<noteq> [] \<and> cache_lookup self nc (search_cache_key q max_results) = None \<and>
    (ydl (ytdl_format self, search_query q max_results) = Inr None \<or>
     ydl (ytdl_format self, search_query q max_results) = Inr (Some res) \<and> rs_entries res = None) \<longrightarrow>
      fst (search ydl nc ns (Inr \<lparr>rq_query = Some q, rq_max_results = Some max_results\<rparr>) self) =
        Success (SearchData \<lparr>videos = [], total_count = 0, query = q\<rparr>))"
proof (intro conjI impI)
  assume a: "0 \<le> max_results \<and>
    ydl (ytdl_format self, search_query q max_results) = Inr (Some res) \<and>
    rs_entries res = Some entries"
  let ?vs = "collect_videos (take (nat max_results) entries)"
  have r: "fst (search_sync ydl self q max_results) =
             Some \<lparr>videos = ?vs, total_count = length ?vs, query = q\<rparr>"
    using a by (simp add: search_sync_def Let_def slice_to_nonneg)
  have "length ?vs \<le> length (take (nat max_results) entries)"
    by (rule length_collect_videos)
  also have "\<dots> \<le> nat max_results" by simp
  finally have "int (length ?vs) \<le> max_results" using a by linarith
  with r show "\<exists>r. fst (search_sync ydl self q max_results) = Some r \<and>
           videos r = map video_info_of
             (List.map_filter (\<lambda>e. if info_truthy e then e else None)
                (take (nat max_results) entries)) \<and>
           int (length (videos r)) \<le> max_results \<and>
           total_count r = length (videos r) \<and>
           query r = q"
    by (simp add: collect_videos_map_filter)
next
  assume "ydl (ytdl_format self, search_query q max_results) = Inr None \<or>
    ydl (ytdl_format self, search_query q max_results) = Inr (Some res) \<and> rs_entries res = None"
  then show "fst (search_sync ydl self q max_results) = Some \<lparr>videos = [], total_count = 0, query = q\<rparr>"
    by (auto simp: search_sync_def Let_def)
next
  assume a: "q \<noteq> [] \<and> cache_lookup self nc (search_cache_key q max_results) = None \<and>
    (ydl (ytdl_format self, search_query q max_results) = Inr None \<or>
     ydl (ytdl_format self, search_query q max_results) = Inr (Some res) \<and> rs_entries res = None)"
  let ?body = "\<lparr>rq_query = Some q, rq_max_results = Some max_results\<rparr>"
  have v: "str_truthy (rq_query ?body)" using a by (simp add: str_truthy_def)
  have g: "get (rq_query ?body) [] = q" "get (rq_max_results ?body) 10 = max_results"
    by (simp_all add: get_def)
  have "fst (search_sync ydl (self\<lparr>request_count := request_count self + 1\<rparr>) q max_results) =
          Some \<lparr>videos = [], total_count = 0, query = q\<rparr>"
    using a by (auto simp: search_sync_def Let_def)
  then obtain calls where
    "search_sync ydl (self\<lparr>request_count := request_count self + 1\<rparr>) q max_results =
       (Some \<lparr>videos = [], total_count = 0, query = q\<rparr>, calls)"
    by (cases "search_sync ydl (self\<lparr>request_count := request_count self + 1\<rparr>) q max_results") auto
  with search_miss[OF v, of self nc ydl ns] g a
  show "fst (search ydl nc ns (Inr ?body) self) =
        Success (SearchData \<lparr>videos = [], total_count = 0, query = q\<rparr>)"
    by simp
qed

text \<open>The theorem for limit 3 on five entries, the second of which is \<^verbatim>\<open>None\<close>: two
  videos.\<close>

theorem search_sync_videos_witness:
  "(0::int) \<le> 3 \<and>
   ydl_returns five_entries (ytdl_format default_service, search_query ''lofi'' 3) =
     Inr (Some five_entries) \<and>
   rs_entries five_entries =
     Some [Some (titled_info ''a'' ''A''), None, Some (titled_info ''b'' ''B''),
           Some (titled_info ''c'' ''C''), Some (titled_info ''d'' ''D'')] \<and>
   (\<exists>r. fst (search_sync (ydl_returns five_entries) default_service ''lofi'' 3) = Some r \<and>
        map v_id (videos r) = [''a'', ''b''] \<and>
        int (length (videos r)) \<le> 3 \<and>
        total_count r = length (videos r))"
proof -
  have a: "(0::int) \<le> 3" by simp
  have b: "ydl_returns five_entries (ytdl_format default_service, search_query ''lofi'' 3) =
     Inr (Some five_entries)"
    by (simp add: ydl_returns_def)
  have c: "rs_entries five_entries =
     Some [Some (titled_info ''a'' ''A''), None, Some (titled_info ''b'' ''B''),
           Some (titled_info ''c'' ''C''), Some (titled_info ''d'' ''D'')]"
    by (simp add: five_entries_def)
  from search_sync_videos
    [where max_results = 3 and ydl = "ydl_returns five_entries" and self = default_service
       and q = "''lofi''" and res = five_entries
       and entries = "[Some (titled_info ''a'' ''A''), None, Some (titled_info ''b'' ''B''),
           Some (titled_info ''c'' ''C''), Some (titled_info ''d'' ''D'')]"] a b c
  obtain r where r: "fst (search_sync (ydl_returns five_entries) default_service ''lofi'' 3) = Some r"
    "videos r = map video_info_of
             (List.map_filter (\<lambda>e. if info_truthy e then e else None)
                (take (nat 3) [Some (titled_info ''a'' ''A''), None, Some (titled_info ''b'' ''B''),
           Some (titled_info ''c'' ''C''), Some (titled_info ''d'' ''D'')]))"
    "int (length (videos r)) \<le> 3" "total_count r = length (videos r)"
    by blast
  have m: "map v_id (videos r) = [''a'', ''b'']"
    unfolding r(2)
    by (simp add: List.map_filter_simps info_truthy_def dict_empty_def titled_info_def
        empty_dict_def video_info_of_def get_def numeral_3_eq_3)
  show ?thesis
    by (intro conjI exI[of _ r]) (fact a b c r(1) m r(3) r(4))+
qed

text \<open>Claim C7 as stated fails for a negative limit: with limit \<open>-1\<close> the slice drops
  the last of the five entries, and three videos are returned.\<close>

theorem search_negative_limit_counterexample:
  "\<exists>r. fst (search_sync (ydl_returns five_entries) default_service ''lofi'' (- 1)) = Some r \<and>
       map v_id (videos r) = [''a'', ''b'', ''c''] \<and>
       \<not> int (length (videos r)) \<le> - 1"
  by (simp add: search_sync_def Let_def ydl_returns_def five_entries_def slice_to_def
      dict_empty_def titled_info_def empty_dict_def video_info_of_def get_def)

section \<open>Defaults of the normaliser\<close>

text \<open>The defaults of \<^verbatim>\<open>clean_info\<close>, of a cleaned format and of a cleaned
  thumbnail, key by key.\<close>

lemma clean_info_of_defaults:
  "c = clean_info_of u info \<Longrightarrow>
           (ri_id info = None \<longrightarrow> v_id c = []) \<and>
           (ri_title info = None \<longrightarrow> v_title c = []) \<and>
           (ri_description info = None \<longrightarrow> v_description c = []) \<and>
           (ri_duration info = None \<longrightarrow> v_duration c = None) \<and>
           (ri_webpage_url info = None \<longrightarrow> v_webpage_url c = u) \<and>
           (ri_thumbnails info = None \<longrightarrow> v_thumbnail c = [] \<and> v_thumbnails c = []) \<and>
           (ri_uploader info = None \<longrightarrow> v_uploader c = []) \<and>
           (ri_upload_date info = None \<longrightarrow> v_upload_date c = []) \<and>
           (ri_view_count info = None \<longrightarrow> v_view_count c = None) \<and>
           (ri_extractor info = None \<longrightarrow> v_extractor c = []) \<and>
           (ri_extractor_key info = None \<longrightarrow> v_extractor_key c = []) \<and>
           (ri_live_status info = None \<longrightarrow> v_live_status c = None) \<and>
           (ri_tags info = None \<longrightarrow> v_tags c = []) \<and>
           (ri_categories info = None \<longrightarrow> v_categories c = []) \<and>
           (ri_formats info = None \<longrightarrow> v_formats c = []) \<and>
           v_formats c = map clean_format_of (get (ri_formats info) []) \<and>
           v_thumbnails c = map clean_thumbnail_of (get (ri_thumbnails info) []) \<and>
           v_available c"
  by (simp add: clean_info_of_def get_def get_best_thumbnail_def clean_formats_def
      clean_thumbnails_def)

lemma clean_format_of_defaults:
  "(rf_format_id fmt = None \<longrightarrow> f_format_id (clean_format_of fmt) = []) \<and>
   (rf_url fmt = None \<longrightarrow> f_url (clean_format_of fmt) = []) \<and>
   (rf_ext fmt = None \<longrightarrow> f_ext (clean_format_of fmt) = []) \<and>
   (rf_format fmt = None \<longrightarrow> f_format (clean_format_of fmt) = []) \<and>
   (rf_protocol fmt = None \<longrightarrow> f_protocol (clean_format_of fmt) = None) \<and>
   (rf_vcodec fmt = None \<longrightarrow> f_vcodec (clean_format_of fmt) = None) \<and>
   (rf_acodec fmt = None \<longrightarrow> f_acodec (clean_format_of fmt) = None) \<and>
   (rf_width fmt = None \<longrightarrow> f_width (clean_format_of fmt) = None) \<and>
   (rf_height fmt = None \<longrightarrow> f_height (clean_format_of fmt) = None) \<and>
   (rf_fps fmt = None \<longrightarrow> f_fps (clean_format_of fmt) = None) \<and>
   (rf_tbr fmt = None \<longrightarrow> f_tbr (clean_format_of fmt) = None) \<and>
   (rf_vbr fmt = None \<longrightarrow> f_vbr (clean_format_of fmt) = None) \<and>
   (rf_abr fmt = None \<longrightarrow> f_abr (clean_format_of fmt) = None) \<and>
   (rf_asr fmt = None \<longrightarrow> f_asr (clean_format_of fmt) = None) \<and>
   (rf_filesize fmt = None \<longrightarrow> f_filesize (clean_format_of fmt) = None) \<and>
   (rf_quality fmt = None \<longrightarrow> f_quality (clean_format_of fmt) = None) \<and>
   (rf_language fmt = None \<longrightarrow> f_language (clean_format_of fmt) = None) \<and>
   (rf_preference fmt = None \<longrightarrow> f_preference (clean_format_of fmt) = None)"
  by (simp add: clean_format_of_def get_def)

lemma clean_thumbnail_of_defaults:
  "(rt_id thumb = None \<longrightarrow> t_id (clean_thumbnail_of thumb) = None) \<and>
   (rt_url thumb = None \<longrightarrow> t_url (clean_thumbnail_of thumb) = []) \<and>
   (rt_width thumb = None \<longrightarrow> t_width (clean_thumbnail_of thumb) = None) \<and>
   (rt_height thumb = None \<longrightarrow> t_height (clean_thumbnail_of thumb) = None) \<and>
   (rt_resolution thumb = None \<longrightarrow> t_resolution (clean_thumbnail_of thumb) = None)"
  by (simp add: clean_thumbnail_of_def get_def)

text \<open>
  Claim C4, as amended. Whenever the library returns a non-empty info dictionary,
  \<^verbatim>\<open>_extract_info_sync\<close> returns a cleaned record (it does not fail on a missing
  key), in which every absent string key is the empty string, except the canonical URL
  \<^verbatim>\<open>webpage_url\<close>, which is the requested URL; every absent numeric or nullable key
  (duration, view count, live status) is null; every absent list (tags, categories,
  formats, thumbnails) is the empty list, and the best thumbnail of absent thumbnails is
  the empty string. Formats and thumbnails are cleaned item by item, in order.
\<close>

theorem extract_info_sync_defaults:
  assumes "ydl (if str_truthy fo then get fo [] else ytdl_format self, u) = Inr (Some info)"
    and "\<not> dict_empty info"
  shows "\<exists>c. fst (extract_info_sync ydl self u fo) = Some c \<and>
           (ri_id info = None \<longrightarrow> v_id c = []) \<and>
           (ri_title info = None \<longrightarrow> v_title c = []) \<and>
           (ri_description info = None \<longrightarrow> v_description c = []) \<and>
           (ri_duration info = None \<longrightarrow> v_duration c = None) \<and>
           (ri_webpage_url info = None \<longrightarrow> v_webpage_url c = u) \<and>
           (ri_thumbnails info = None \<longrightarrow> v_thumbnail c = [] \<and> v_thumbnails c = []) \<and>
           (ri_uploader info = None \<longrightarrow> v_uploader c = []) \<and>
           (ri_upload_date info = None \<longrightarrow> v_upload_date c = []) \<and>
           (ri_view_count info = None \<longrightarrow> v_view_count c = None) \<and>
           (ri_extractor info = None \<longrightarrow> v_extractor c = []) \<and>
           (ri_extractor_key info = None \<longrightarrow> v_extractor_key c = []) \<and>
           (ri_live_status info = None \<longrightarrow> v_live_status c = None) \<and>
           (ri_tags info = None \<longrightarrow> v_tags c = []) \<and>
           (ri_categories info = None \<longrightarrow> v_categories c = []) \<and>
           (ri_formats info = None \<longrightarrow> v_formats c = []) \<and>
           v_formats c = map clean_format_of (get (ri_formats info) []) \<and>
           v_thumbnails c = map clean_thumbnail_of (get (ri_thumbnails info) []) \<and>
           v_available c"
proof -
  have r: "fst (extract_info_sync ydl self u fo) = Some (clean_info_of u info)"
    using assms by (simp add: extract_info_sync_succeeds)
  show ?thesis
    by (rule exI[of _ "clean_info_of u info"])
       (rule conjI[OF r clean_info_of_defaults[OF refl]])
qed

text \<open>The theorem on a dictionary that holds none of the keys read.\<close>

theorem extract_info_sync_defaults_witness:
  "ydl_returns bare_info
     (if str_truthy None then get None [] else ytdl_format default_service, ''http://x'') =
     Inr (Some bare_info) \<and>
   \<not> dict_empty bare_info \<and>
   ri_id bare_info = None \<and> ri_duration bare_info = None \<and> ri_webpage_url bare_info = None \<and>
   ri_tags bare_info = None \<and>
   (\<exists>c. fst (extract_info_sync (ydl_returns bare_info) default_service ''http://x'' None) = Some c \<and>
        v_id c = [] \<and> v_duration c = None \<and> v_webpage_url c = ''http://x'' \<and> v_tags c = [])"
proof -
  have a: "ydl_returns bare_info
     (if str_truthy None then get None [] else ytdl_format default_service, ''http://x'') =
     Inr (Some bare_info)"
    by (simp add: ydl_returns_def)
  have b: "\<not> dict_empty bare_info"
    by (simp add: dict_empty_def bare_info_def empty_dict_def)
  have n: "ri_id bare_info = None" "ri_duration bare_info = None" "ri_webpage_url bare_info = None"
    "ri_tags bare_info = None"
    by (simp_all add: bare_info_def empty_dict_def)
  from extract_info_sync_defaults
    [where ydl = "ydl_returns bare_info" and fo = None and self = default_service
       and u = "''http://x''" and info = bare_info, OF a b]
  obtain c where
    cc: "fst (extract_info_sync (ydl_returns bare_info) default_service ''http://x'' None) = Some c \<and>
           (ri_id bare_info = None \<longrightarrow> v_id c = []) \<and>
           (ri_title bare_info = None \<longrightarrow> v_title c = []) \<and>
           (ri_description bare_info = None \<longrightarrow> v_description c = []) \<and>
           (ri_duration bare_info = None \<longrightarrow> v_duration c = None) \<and>
           (ri_webpage_url bare_info = None \<longrightarrow> v_webpage_url c = ''http://x'') \<and>
           (ri_thumbnails bare_info = None \<longrightarrow> v_thumbnail c = [] \<and> v_thumbnails c = []) \<and>
           (ri_uploader bare_info = None \<longrightarrow> v_uploader c = []) \<and>
           (ri_upload_date bare_info = None \<longrightarrow> v_upload_date c = []) \<and>
           (ri_view_count bare_info = None \<longrightarrow> v_view_count c = None) \<and>
           (ri_extractor bare_info = None \<longrightarrow> v_extractor c = []) \<and>
           (ri_extractor_key bare_info = None \<longrightarrow> v_extractor_key c = []) \<and>
           (ri_live_status bare_info = None \<longrightarrow> v_live_status c = None) \<and>
           (ri_tags bare_info = None \<longrightarrow> v_tags c = []) \<and>
           (ri_categories bare_info = None \<longrightarrow> v_categories c = []) \<and>
           (ri_formats bare_info = None \<longrightarrow> v_formats c = []) \<and>
           v_formats c = map clean_format_of (get (ri_formats bare_info) []) \<and>
           v_thumbnails c = map clean_thumbnail_of (get (ri_thumbnails bare_info) []) \<and>
           v_available c" ..
  from cc have c: "fst (extract_info_sync (ydl_returns bare_info) default_service ''http://x'' None) = Some c"
    by (rule conjunct1)
  from cc n have e: "v_id c = []" "v_duration c = None" "v_webpage_url c = ''http://x''" "v_tags c = []"
    by simp_all
  show ?thesis
    by (intro conjI exI[of _ c]) (fact a b n c e)+
qed

text \<open>Claim C4 as stated fails for the canonical URL: when \<^verbatim>\<open>webpage_url\<close> is absent
  the cleaned record carries the requested URL, not the empty string.\<close>

theorem webpage_url_default_counterexample:
  "ri_webpage_url bare_info = None \<and>
   map_option v_webpage_url
     (fst (extract_info_sync (ydl_returns bare_info) default_service ''http://x'' None)) =
     Some ''http://x'' \<and>
   map_option v_webpage_url
     (fst (extract_info_sync (ydl_returns bare_info) default_service ''http://x'' None)) \<noteq> Some []"
  by (simp add: extract_info_sync_def Let_def ydl_returns_def dict_empty_def bare_info_def
      empty_dict_def clean_info_of_def get_def str_truthy_def)

end
